theory Spec2Isabelle
  imports Complex_Main
begin

section \<open>Python values\<close>

text \<open>
  A Python \<open>float\<close> is an IEEE double. Its finite values are embedded in the reals;
  the two infinities and NaN are separate constructors. Comparison and
  \<open>math.isfinite\<close> are exact on this embedding. The quotient of a finite value is the
  real quotient: the rounding of the double quotient is outside this model.
\<close>

datatype pyfloat = Fin real | PInf | NInf | NaN

fun isfinite :: "pyfloat \<Rightarrow> bool" where
  "isfinite (Fin _) = True"
| "isfinite _ = False"

text \<open>Python's \<open>a < b\<close> on floats: every comparison with NaN is false.\<close>

fun py_lt :: "pyfloat \<Rightarrow> pyfloat \<Rightarrow> bool" where
  "py_lt (Fin a) (Fin b) = (a < b)"
| "py_lt (Fin _) PInf = True"
| "py_lt NInf (Fin _) = True"
| "py_lt NInf PInf = True"
| "py_lt _ _ = False"

text \<open>\<open>abs\<close> on floats, used only to state the magnitude reading of the swap heuristic.\<close>

fun py_abs :: "pyfloat \<Rightarrow> pyfloat" where
  "py_abs (Fin a) = Fin \<bar>a\<bar>"
| "py_abs PInf = PInf"
| "py_abs NInf = PInf"
| "py_abs NaN = NaN"

text \<open>The exceptions the modelled code can raise, with the messages of the source.\<close>

datatype pyexn =
    RuntimeError string
  | IndexError
  | KeyError
  | ValueError
  | TypeError
  | AttributeError
  | OverflowError
  | ZeroDivisionError
  | OSError

text \<open>\<open>x / s\<close> for a float \<open>x\<close> and a finite divisor \<open>s\<close>.\<close>

fun py_truediv :: "pyfloat \<Rightarrow> real \<Rightarrow> pyexn + pyfloat" where
  "py_truediv x s =
     (if s = 0 then Inl ZeroDivisionError
      else case x of
             Fin a \<Rightarrow> Inr (Fin (a / s))
           | PInf \<Rightarrow> Inr (if 0 < s then PInf else NInf)
           | NInf \<Rightarrow> Inr (if 0 < s then NInf else PInf)
           | NaN \<Rightarrow> Inr NaN)"

text \<open>Python list indexing with a non-negative index: out of range raises.\<close>

definition index :: "'a list \<Rightarrow> nat \<Rightarrow> pyexn + 'a" where
  "index xs i = (if i < length xs then Inr (xs ! i) else Inl IndexError)"

section \<open>The flight log\<close>

text \<open>
  One element of a topic's column: a number (the numpy scalar, converted by \<open>float\<close>),
  or a value on which \<open>float\<close> raises.
\<close>

datatype cell = Num pyfloat | Unparseable

text \<open>
  An entry of \<open>ulog.data_list\<close>: the topic name and \<open>d.data\<close>, the dictionary from
  field name to column.
\<close>

record topic =
  name :: string
  data :: "(string \<times> cell list) list"

text \<open>\<open>rec.get(key)\<close>.\<close>

definition get :: "(string \<times> 'v) list \<Rightarrow> string \<Rightarrow> 'v option" where
  "get d k = map_of d k"

text \<open>A position sample as the source appends it: \<open>(lo, la, al)\<close>.\<close>

type_synonym coord = "pyfloat \<times> pyfloat \<times> pyfloat"

text \<open>
  The inner function \<open>f(x, s)\<close> of \<open>_fallback_ulog_to_kml\<close>: \<open>float(x)/s\<close> when that is
  finite, \<open>None\<close> when it is not or when anything raises.
\<close>

definition f :: "cell \<Rightarrow> real \<Rightarrow> pyfloat option" where
  "f x s =
     (case x of
        Unparseable \<Rightarrow> None
      | Num v \<Rightarrow>
          (case py_truediv v s of
             Inl _ \<Rightarrow> None
           | Inr q \<Rightarrow> if isfinite q then Some q else None))"

text \<open>
  The body of the sampling loop at a visited index \<open>i\<close>: the three reads, the two
  filters and the altitude default. \<open>Inr None\<close> is the \<open>continue\<close>, \<open>Inr (Some c)\<close>
  the tuple that is appended.
\<close>

definition visit ::
  "cell list \<Rightarrow> cell list \<Rightarrow> cell list option \<Rightarrow> real \<Rightarrow> nat \<Rightarrow> pyexn + coord option" where
  "visit lat lon alt scale i =
     (case index lat i of
        Inl e \<Rightarrow> Inl e
      | Inr lat_i \<Rightarrow>
          (case index lon i of
             Inl e \<Rightarrow> Inl e
           | Inr lon_i \<Rightarrow>
               (case (case alt of
                        None \<Rightarrow> Inr (Some (Fin 0))
                      | Some a \<Rightarrow> (case index a i of Inl e \<Rightarrow> Inl e | Inr alt_i \<Rightarrow> Inr (f alt_i 1)))
                of
                  Inl e \<Rightarrow> Inl e
                | Inr al \<Rightarrow>
                    (case (f lat_i scale, f lon_i scale) of
                       (Some la, Some lo) \<Rightarrow>
                         Inr (Some (lo, la, (case al of None \<Rightarrow> Fin 0 | Some a \<Rightarrow> a)))
                     | _ \<Rightarrow> Inr None))))"

text \<open>
  The loop \<open>for i in range(len(lat))\<close> with its two variables \<open>coords\<close> and \<open>last\<close> (here \<open>last'\<close>),
  from index \<open>i\<close> on.
\<close>

function sample_loop ::
  "cell list \<Rightarrow> cell list \<Rightarrow> cell list option \<Rightarrow> real \<Rightarrow> int \<Rightarrow>
   nat \<Rightarrow> int \<Rightarrow> coord list \<Rightarrow> pyexn + coord list" where
  "sample_loop lat lon alt scale downsample i last' coords =
     (if length lat \<le> i then Inr coords
      else if int i - last' < downsample
        then sample_loop lat lon alt scale downsample (Suc i) last' coords
      else case visit lat lon alt scale i of
             Inl e \<Rightarrow> Inl e
           | Inr None \<Rightarrow> sample_loop lat lon alt scale downsample (Suc i) last' coords
           | Inr (Some c) \<Rightarrow>
               sample_loop lat lon alt scale downsample (Suc i) (int i) (coords @ [c]))"
  by pat_completeness auto
termination
  by (relation "measure (\<lambda>(lat, lon, alt, scale, downsample, i, last', coords). length lat - i)")
     auto

declare sample_loop.simps [simp del]

text \<open>
  The first loop over \<open>ulog.data_list\<close>: the first topic of the wanted name, as the
  \<open>break\<close> leaves it.
\<close>

fun first_named :: "string \<Rightarrow> topic list \<Rightarrow> topic option" where
  "first_named n [] = None"
| "first_named n (d # ds) = (if name d = n then Some d else first_named n ds)"

text \<open>
  The topic selection of \<open>_fallback_ulog_to_kml\<close>: the values of \<open>lat\<close>, \<open>lon\<close>,
  \<open>alt\<close> and \<open>scale\<close> after the two searches, or the error raised when \<open>rec\<close>,
  \<open>lat\<close> or \<open>lon\<close> is \<open>None\<close>.
\<close>

definition select_topic ::
  "topic list \<Rightarrow> pyexn + (cell list \<times> cell list \<times> cell list option \<times> real)" where
  "select_topic data_list =
     (let (rec, scale) =
            (case first_named ''vehicle_global_position'' data_list of
               Some d \<Rightarrow> (Some (data d), 1)
             | None \<Rightarrow>
                 (case first_named ''vehicle_gps_position'' data_list of
                    Some d \<Rightarrow> (Some (data d), 10000000)
                  | None \<Rightarrow> (None, 1)))
      in case rec of
           None \<Rightarrow> Inl (RuntimeError ''No GPS/global position topics found in ULog.'')
         | Some r \<Rightarrow>
             (case (get r ''lat'', get r ''lon'') of
                (Some lat, Some lon) \<Rightarrow> Inr (lat, lon, get r ''alt'', scale)
              | _ \<Rightarrow> Inl (RuntimeError ''No GPS/global position topics found in ULog.'')))"

text \<open>
  The in-memory track of \<open>_fallback_ulog_to_kml\<close>: the list \<open>coords\<close> after the loop,
  or the error raised before the document is built.
\<close>

definition fallback_track :: "topic list \<Rightarrow> int \<Rightarrow> pyexn + coord list" where
  "fallback_track data_list downsample =
     (case select_topic data_list of
        Inl e \<Rightarrow> Inl e
      | Inr (lat, lon, alt, scale) \<Rightarrow>
          (case sample_loop lat lon alt scale downsample 0 (- downsample) [] of
             Inl e \<Rightarrow> Inl e
           | Inr coords \<Rightarrow>
               if coords = [] then Inl (RuntimeError ''No valid GPS samples extracted from ULog.'')
               else Inr coords))"

section \<open>The track file and the output directory\<close>

text \<open>
  The document handed to \<open>simplekml\<close>: one line string with the attributes the source
  sets. How \<open>simplekml\<close> serialises it is outside the repository; the written file is
  modelled as this document.
\<close>

datatype altitude_mode = Absolute | ClampToGround | RelativeToGround

record linestring =
  ls_name :: string
  ls_coords :: "coord list"
  ls_altitudemode :: altitude_mode
  ls_tessellate :: int
  ls_color :: string
  ls_width :: int

datatype file_content = Kml linestring | ToolOutput string

text \<open>
  The output directory: file name and content, the first entry for a name being the
  current one.
\<close>

type_synonym directory = "(string \<times> file_content) list"

definition exists_in :: "directory \<Rightarrow> string \<Rightarrow> bool" where
  "exists_in dir nm = (nm \<in> set (map fst dir))"

definition save :: "directory \<Rightarrow> string \<Rightarrow> file_content \<Rightarrow> directory" where
  "save dir nm c = (nm, c) # dir"

definition unlink :: "directory \<Rightarrow> string \<Rightarrow> directory" where
  "unlink dir nm = filter (\<lambda>e. fst e \<noteq> nm) dir"

text \<open>\<open>os.path.basename\<close>: what follows the last slash.\<close>

definition basename :: "string \<Rightarrow> string" where
  "basename p = rev (takeWhile (\<lambda>c. c \<noteq> CHR ''/'') (rev p))"

text \<open>
  \<open>_fallback_ulog_to_kml(ulg_path, out_path, downsample)\<close> on the parsed log: the
  directory after \<open>kml.save(out_path)\<close>, or the error raised before it.
  \<open>simplekml.Color.changealphaint(255, simplekml.Color.red)\<close> is \<open>ff0000ff\<close>.
\<close>

definition fallback_ulog_to_kml ::
  "topic list \<Rightarrow> string \<Rightarrow> string \<Rightarrow> int \<Rightarrow> directory \<Rightarrow> pyexn + directory" where
  "fallback_ulog_to_kml data_list ulg_path out_path downsample dir =
     (case fallback_track data_list downsample of
        Inl e \<Rightarrow> Inl e
      | Inr coords \<Rightarrow>
          Inr (save dir out_path
                 (Kml \<lparr> ls_name = basename ulg_path, ls_coords = coords,
                        ls_altitudemode = Absolute, ls_tessellate = 1,
                        ls_color = ''ff0000ff'', ls_width = 4 \<rparr>)))"

subsection \<open>Output naming\<close>

text \<open>\<open>f"{i}"\<close> for a non-negative integer: its decimal digits.\<close>

definition digit :: "nat \<Rightarrow> char" where
  "digit d = ''0123456789'' ! d"

fun str_nat :: "nat \<Rightarrow> string" where
  "str_nat n = (if n < 10 then [digit n] else str_nat (n div 10) @ [digit (n mod 10)])"

declare str_nat.simps [simp del]

text \<open>
  \<open>Path.suffix\<close> and \<open>Path.stem\<close> of a file name, as \<open>pathlib\<close> computes them from
  \<open>i = name.rfind('.')\<close>: the name is split at \<open>i\<close> when \<open>0 < i < len(name) - 1\<close>.
\<close>

definition after_last_dot :: "string \<Rightarrow> string" where
  "after_last_dot nm = rev (takeWhile (\<lambda>c. c \<noteq> CHR ''.'') (rev nm))"

definition suffix :: "string \<Rightarrow> string" where
  "suffix nm =
     (let tl = after_last_dot nm
      in if CHR ''.'' \<in> set nm \<and> Suc (length tl) < length nm \<and> tl \<noteq> [] then CHR ''.'' # tl
         else [])"

definition stem :: "string \<Rightarrow> string" where
  "stem nm = take (length nm - length (suffix nm)) nm"

text \<open>The candidate \<open>f"{stem}-{i}{suf}"\<close>.\<close>

definition candidate :: "string \<Rightarrow> string \<Rightarrow> nat \<Rightarrow> string" where
  "candidate st suf i = st @ ''-'' @ str_nat i @ suf"

text \<open>
  The \<open>while True\<close> loop of \<open>_unique_name\<close> from counter \<open>i\<close> on, over the names that
  exist in the directory. A directory holds finitely many names, so the loop ends.
\<close>

function unique_loop :: "string list \<Rightarrow> string \<Rightarrow> string \<Rightarrow> nat \<Rightarrow> string" where
  "unique_loop names st suf i =
     (let cand = candidate st suf i
      in if cand \<notin> set names then cand else unique_loop names st suf (Suc i))"
  by pat_completeness auto
termination
proof (relation "measure (\<lambda>(names, st, suf, i). 10 ^ Max (set (map length names)) - i)")
  show "wf (measure (\<lambda>(names, st, suf, i). 10 ^ Max (set (map length names)) - i))"
    by simp
next
  fix names :: "string list" and st suf :: string and i :: nat and x
  assume "x = candidate st suf i" and "\<not> x \<notin> set names"
  then have mem: "candidate st suf i \<in> set names" by simp
  have digits: "length (str_nat n) \<le> k \<Longrightarrow> n < 10 ^ k" for n k
  proof (induction n arbitrary: k rule: str_nat.induct)
    case (1 n)
    from "1.prems" have "k \<noteq> 0"
      by (subst (asm) str_nat.simps) (auto split: if_splits)
    then obtain k' where k: "k = Suc k'" by (cases k) auto
    show ?case
    proof (cases "n < 10")
      case True
      have "(1::nat) \<le> 10 ^ k'" by simp
      then have "(10::nat) \<le> 10 * 10 ^ k'" by linarith
      with True have "n < 10 * 10 ^ k'" by linarith
      with k show ?thesis by simp
    next
      case False
      with "1.prems" k have "length (str_nat (n div 10)) \<le> k'"
        by (subst (asm) str_nat.simps) simp
      with "1.IH" [OF False] have "n div 10 < 10 ^ k'" by simp
      then have "n < 10 * 10 ^ k'" by (simp add: div_less_iff_less_mult)
      with k show ?thesis by simp
    qed
  qed
  from mem have "length (candidate st suf i) \<le> Max (set (map length names))"
    by (intro Max_ge) auto
  then have "length (str_nat i) \<le> Max (set (map length names))"
    by (simp add: candidate_def)
  then have "i < 10 ^ Max (set (map length names))" by (rule digits)
  then show "((names, st, suf, Suc i), (names, st, suf, i))
        \<in> measure (\<lambda>(names, st, suf, i). 10 ^ Max (set (map length names)) - i)"
    by simp
qed

declare unique_loop.simps [simp del]

text \<open>
  \<open>_unique_name(base)\<close>: \<open>names\<close> are the names existing in the directory of \<open>base\<close>,
  \<open>base\<close> is the file name.
\<close>

definition unique_name :: "string list \<Rightarrow> string \<Rightarrow> string" where
  "unique_name names base =
     (if base \<notin> set names then base else unique_loop names (stem base) (suffix base) 1)"

subsection \<open>The conversion\<close>

text \<open>
  The outcome shown by \<open>_set_k_status\<close>: the name of the created file, or the
  exception of the \<open>except\<close> branch.
\<close>

datatype conversion_result = Success string | Failure pyexn

text \<open>
  The worker \<open>run\<close> of \<open>_convert_ulg_to_kml\<close> in \<open>sim.py\<close>. The external converter is
  the parameter \<open>tool\<close>: it raises, or gives its return code and the directory it
  leaves. \<open>ulg_path\<close> is the path of the log, \<open>ulg_stem\<close> its \<open>Path.stem\<close>. Moving the
  tool's \<open>track.kml\<close> to the target is modelled where it succeeds (by \<open>rename\<close>, or by
  the copy and \<open>unlink\<close> that replace it).
\<close>

definition convert ::
  "(directory \<Rightarrow> pyexn + int \<times> directory) \<Rightarrow> topic list \<Rightarrow> string \<Rightarrow> string \<Rightarrow>
   directory \<Rightarrow> conversion_result \<times> directory" where
  "convert tool data_list ulg_path ulg_stem dir =
     (case tool dir of
        Inl e \<Rightarrow> (Failure e, dir)
      | Inr (returncode, dir1) \<Rightarrow>
          if returncode = 0 \<and> exists_in dir1 ''track.kml'' then
            (let tgt = unique_name (map fst dir1) (ulg_stem @ ''.kml'')
             in case map_of dir1 ''track.kml'' of
                  None \<Rightarrow> (Failure OSError, dir1)
                | Some produced \<Rightarrow> (Success tgt, save (unlink dir1 ''track.kml'') tgt produced))
          else
            (let tgt = unique_name (map fst dir1) (ulg_stem @ ''.kml'')
             in case fallback_ulog_to_kml data_list ulg_path tgt 5 dir1 of
                  Inl e \<Rightarrow> (Failure e, dir1)
                | Inr dir2 \<Rightarrow> (Success tgt, dir2)))"

section \<open>Planning documents\<close>

subsection \<open>String operations\<close>

text \<open>
  Strings are byte lists; the whitespace of \<open>str.strip\<close> and \<open>str.split\<close> is modelled
  in the ASCII range.
\<close>

definition isspace :: "char \<Rightarrow> bool" where
  "isspace c =
     (c \<in> set [CHR '' '', CHR 0x09, CHR 0x0A, CHR 0x0B, CHR 0x0C, CHR 0x0D,
                CHR 0x1C, CHR 0x1D, CHR 0x1E, CHR 0x1F])"

definition strip :: "string \<Rightarrow> string" where
  "strip s = rev (dropWhile isspace (rev (dropWhile isspace s)))"

text \<open>\<open>s.split()\<close>: the maximal runs of non-whitespace; \<open>cur\<close> is the run being read.\<close>

fun split_ws :: "string \<Rightarrow> string \<Rightarrow> string list" where
  "split_ws cur [] = (if cur = [] then [] else [cur])"
| "split_ws cur (c # cs) =
     (if isspace c then (if cur = [] then split_ws [] cs else cur # split_ws [] cs)
      else split_ws (cur @ [c]) cs)"

text \<open>\<open>s.split(sep)\<close> for a one-character separator; \<open>cur\<close> is the part being read.\<close>

fun split_on :: "char \<Rightarrow> string \<Rightarrow> string \<Rightarrow> string list" where
  "split_on sep cur [] = [cur]"
| "split_on sep cur (c # cs) =
     (if c = sep then cur # split_on sep [] cs else split_on sep (cur @ [c]) cs)"

text \<open>\<open>needle in hay\<close> on strings.\<close>

fun contains :: "string \<Rightarrow> string \<Rightarrow> bool" where
  "contains needle [] = (needle = [])"
| "contains needle (c # cs) =
     (take (length needle) (c # cs) = needle \<or> contains needle cs)"

text \<open>
  Python's \<open>float\<close> on a string is a parameter \<open>float_of\<close> of the extractors below:
  \<open>None\<close> where it raises \<open>ValueError\<close>. For concrete inputs, \<open>dec_float\<close> is its
  restriction to plain decimal literals (a sign, digits, at most one point), read
  exactly; it rejects every other string.
\<close>

definition digit_val :: "char \<Rightarrow> nat option" where
  "digit_val c =
     (let n = of_char c :: nat in if 48 \<le> n \<and> n \<le> 57 then Some (n - 48) else None)"

fun dec_nat :: "nat \<Rightarrow> string \<Rightarrow> nat option" where
  "dec_nat acc [] = Some acc"
| "dec_nat acc (c # cs) =
     (case digit_val c of None \<Rightarrow> None | Some d \<Rightarrow> dec_nat (10 * acc + d) cs)"

definition dec_unsigned :: "string \<Rightarrow> real option" where
  "dec_unsigned s =
     (case split_on CHR ''.'' [] s of
        [ip] \<Rightarrow> if ip = [] then None else map_option real (dec_nat 0 ip)
      | [ip, fp] \<Rightarrow>
          if ip = [] \<and> fp = [] then None
          else (case (dec_nat 0 ip, dec_nat 0 fp) of
                  (Some a, Some b) \<Rightarrow> Some (real a + real b / 10 ^ length fp)
                | _ \<Rightarrow> None)
      | _ \<Rightarrow> None)"

definition dec_float :: "string \<Rightarrow> pyfloat option" where
  "dec_float s =
     (case s of
        [] \<Rightarrow> None
      | c # r \<Rightarrow>
          if c = CHR ''-'' then map_option (\<lambda>x. Fin (- x)) (dec_unsigned r)
          else if c = CHR ''+'' then map_option Fin (dec_unsigned r)
          else map_option Fin (dec_unsigned s))"

subsection \<open>Schema B: the markup document\<close>

text \<open>An \<open>ElementTree\<close> element: tag (with its namespace in braces), text, children.\<close>

datatype element = Element (el_tag: string) (el_text: "string option") (el_children: "element list")

text \<open>\<open>root.iter()\<close>: the element and its descendants in document order.\<close>

fun iter :: "element \<Rightarrow> element list" where
  "iter (Element t x cs) = Element t x cs # concat (map iter cs)"

text \<open>\<open>e.find(".//kml:T", ns)\<close>: the first descendant of \<open>e\<close> with the namespaced tag.\<close>

definition find_descendant :: "string \<Rightarrow> element \<Rightarrow> element option" where
  "find_descendant t e = find (\<lambda>d. el_tag d = t) (concat (map iter (el_children e)))"

text \<open>\<open>e.find("kml:T", ns)\<close>: the first child of \<open>e\<close> with the namespaced tag.\<close>

definition find_child :: "string \<Rightarrow> element \<Rightarrow> element option" where
  "find_child t e = find (\<lambda>d. el_tag d = t) (el_children e)"

definition kml_Point :: string where
  "kml_Point = ''{http://www.opengis.net/kml/2.2}Point''"

definition kml_coordinates :: string where
  "kml_coordinates = ''{http://www.opengis.net/kml/2.2}coordinates''"

text \<open>
  The part of \<open>_coords_from_kml\<close> that follows a found point element \<open>pt\<close>, the same in
  \<open>sim.py\<close> and \<open>v3.py\<close>. \<open>Inr None\<close> is the pair \<open>(None, None)\<close>; the \<open>[0]\<close> on an
  empty token list raises outside the \<open>try\<close>.
\<close>

definition point_coords ::
  "(string \<Rightarrow> pyfloat option) \<Rightarrow> element \<Rightarrow> pyexn + (pyfloat \<times> pyfloat) option" where
  "point_coords float_of pt =
     (case find_child kml_coordinates pt of
        None \<Rightarrow> Inr None
      | Some el \<Rightarrow>
          (case el_text el of
             None \<Rightarrow> Inr None
           | Some txt \<Rightarrow>
               if txt = [] then Inr None
               else (case split_ws [] (strip txt) of
                       [] \<Rightarrow> Inl IndexError
                     | first # _ \<Rightarrow>
                         (case split_on CHR '','' [] first of
                            lo # la # _ \<Rightarrow>
                              (case float_of la of
                                 None \<Rightarrow> Inr None
                               | Some la' \<Rightarrow>
                                   (case float_of lo of
                                      None \<Rightarrow> Inr None
                                    | Some lo' \<Rightarrow> Inr (Some (la', lo'))))
                          | _ \<Rightarrow> Inr None))))"

text \<open>\<open>_coords_from_kml\<close> of \<open>sim.py\<close>.\<close>

definition coords_from_kml_sim ::
  "(string \<Rightarrow> pyfloat option) \<Rightarrow> element \<Rightarrow> pyexn + (pyfloat \<times> pyfloat) option" where
  "coords_from_kml_sim float_of root_el =
     (case find_descendant kml_Point root_el of
        None \<Rightarrow> Inr None
      | Some pt \<Rightarrow> point_coords float_of pt)"

text \<open>
  The loop of \<open>v3.py\<close> over \<open>root.iter()\<close> when no point element exists. \<open>Inr None\<close>:
  the loop ended without a \<open>return\<close>. The two \<open>float\<close> calls are outside any \<open>try\<close>.
\<close>

fun scan_coordinates ::
  "(string \<Rightarrow> pyfloat option) \<Rightarrow> element list \<Rightarrow> pyexn + (pyfloat \<times> pyfloat) option" where
  "scan_coordinates float_of [] = Inr None"
| "scan_coordinates float_of (elem # rest) =
     (if contains ''coordinates'' (el_tag elem) \<and> el_text elem \<noteq> None \<and> el_text elem \<noteq> Some []
      then (let parts = split_on CHR '','' [] (strip (the (el_text elem)))
            in if 2 \<le> length parts
               then (case float_of (parts ! 1) of
                       None \<Rightarrow> Inl ValueError
                     | Some la \<Rightarrow>
                         (case float_of (parts ! 0) of
                            None \<Rightarrow> Inl ValueError
                          | Some lo \<Rightarrow> Inr (Some (la, lo))))
               else scan_coordinates float_of rest)
      else scan_coordinates float_of rest)"

text \<open>\<open>_coords_from_kml\<close> of \<open>v3.py\<close>.\<close>

definition coords_from_kml_v3 ::
  "(string \<Rightarrow> pyfloat option) \<Rightarrow> element \<Rightarrow> pyexn + (pyfloat \<times> pyfloat) option" where
  "coords_from_kml_v3 float_of root_el =
     (case find_descendant kml_Point root_el of
        None \<Rightarrow> scan_coordinates float_of (iter root_el)
      | Some pt \<Rightarrow> point_coords float_of pt)"

subsection \<open>Schema A: the route document\<close>

text \<open>The value \<open>json.loads\<close> returns; an object is its list of key and value.\<close>

datatype json =
    JNull
  | JBool bool
  | JInt int
  | JFloat pyfloat
  | JStr string
  | JArr "json list"
  | JObj "(string \<times> json) list"

text \<open>\<open>d.get(k, default)\<close>: only a dictionary has the method.\<close>

definition dict_get :: "json \<Rightarrow> string \<Rightarrow> json \<Rightarrow> pyexn + json" where
  "dict_get d k dflt =
     (case d of
        JObj kvs \<Rightarrow> Inr (case map_of kvs k of None \<Rightarrow> dflt | Some v \<Rightarrow> v)
      | _ \<Rightarrow> Inl AttributeError)"

text \<open>The values \<open>for it in x\<close> runs through.\<close>

definition py_iter :: "json \<Rightarrow> pyexn + json list" where
  "py_iter x =
     (case x of
        JArr xs \<Rightarrow> Inr xs
      | JObj kvs \<Rightarrow> Inr (map (\<lambda>kv. JStr (fst kv)) kvs)
      | JStr s \<Rightarrow> Inr (map (\<lambda>c. JStr [c]) s)
      | _ \<Rightarrow> Inl TypeError)"

text \<open>\<open>k in x\<close> for a string \<open>k\<close>.\<close>

definition py_in :: "string \<Rightarrow> json \<Rightarrow> pyexn + bool" where
  "py_in k x =
     (case x of
        JObj kvs \<Rightarrow> Inr (k \<in> set (map fst kvs))
      | JArr xs \<Rightarrow> Inr (JStr k \<in> set xs)
      | JStr s \<Rightarrow> Inr (contains k s)
      | _ \<Rightarrow> Inl TypeError)"

text \<open>\<open>x[k]\<close> for a string \<open>k\<close>.\<close>

definition getitem :: "json \<Rightarrow> string \<Rightarrow> pyexn + json" where
  "getitem x k =
     (case x of
        JObj kvs \<Rightarrow> (case map_of kvs k of None \<Rightarrow> Inl KeyError | Some v \<Rightarrow> Inr v)
      | _ \<Rightarrow> Inl TypeError)"

text \<open>
  \<open>float(v)\<close> on a JSON value. An integer converts when it rounds to a finite double,
  that is below \<open>2^1024 - 2^970\<close> in magnitude.
\<close>

definition py_float :: "(string \<Rightarrow> pyfloat option) \<Rightarrow> json \<Rightarrow> pyexn + pyfloat" where
  "py_float float_of v =
     (case v of
        JInt n \<Rightarrow> if \<bar>n\<bar> < 2 ^ 1024 - 2 ^ 970 then Inr (Fin (of_int n)) else Inl OverflowError
      | JFloat x \<Rightarrow> Inr x
      | JBool b \<Rightarrow> Inr (Fin (if b then 1 else 0))
      | JStr s \<Rightarrow> (case float_of s of None \<Rightarrow> Inl ValueError | Some x \<Rightarrow> Inr x)
      | _ \<Rightarrow> Inl TypeError)"

text \<open>The test \<open>"param5" in it and "param6" in it\<close>.\<close>

definition has_both_params :: "json \<Rightarrow> pyexn + bool" where
  "has_both_params it =
     (case py_in ''param5'' it of
        Inl e \<Rightarrow> Inl e
      | Inr False \<Rightarrow> Inr False
      | Inr True \<Rightarrow> py_in ''param6'' it)"

text \<open>The returned expression \<open>(float(it["param5"]), float(it["param6"]))\<close>.\<close>

definition item_coords ::
  "(string \<Rightarrow> pyfloat option) \<Rightarrow> json \<Rightarrow> pyexn + pyfloat \<times> pyfloat" where
  "item_coords float_of it =
     (case getitem it ''param5'' of
        Inl e \<Rightarrow> Inl e
      | Inr v5 \<Rightarrow>
          (case py_float float_of v5 of
             Inl e \<Rightarrow> Inl e
           | Inr la \<Rightarrow>
               (case getitem it ''param6'' of
                  Inl e \<Rightarrow> Inl e
                | Inr v6 \<Rightarrow>
                    (case py_float float_of v6 of
                       Inl e \<Rightarrow> Inl e
                     | Inr lo \<Rightarrow> Inr (la, lo)))))"

text \<open>
  The \<open>for\<close> loop of \<open>_coords_from_plan\<close> over the mission items. \<open>Inr None\<close>: the loop
  ended without a \<open>return\<close>.
\<close>

fun scan_items ::
  "(string \<Rightarrow> pyfloat option) \<Rightarrow> json list \<Rightarrow> pyexn + (pyfloat \<times> pyfloat) option" where
  "scan_items float_of [] = Inr None"
| "scan_items float_of (it # its) =
     (case has_both_params it of
        Inl e \<Rightarrow> Inl e
      | Inr False \<Rightarrow> scan_items float_of its
      | Inr True \<Rightarrow>
          (case item_coords float_of it of
             Inl e \<Rightarrow> Inl e
           | Inr p \<Rightarrow> Inr (Some p)))"

text \<open>The body of the first \<open>try\<close> of \<open>_coords_from_plan\<close>.\<close>

definition try_items ::
  "(string \<Rightarrow> pyfloat option) \<Rightarrow> json \<Rightarrow> pyexn + (pyfloat \<times> pyfloat) option" where
  "try_items float_of doc =
     (case dict_get doc ''mission'' (JObj []) of
        Inl e \<Rightarrow> Inl e
      | Inr mission \<Rightarrow>
          (case dict_get mission ''items'' (JArr []) of
             Inl e \<Rightarrow> Inl e
           | Inr items \<Rightarrow>
               (case py_iter items of
                  Inl e \<Rightarrow> Inl e
                | Inr its \<Rightarrow> scan_items float_of its)))"

text \<open>The body of the second \<open>try\<close>: the planned home position.\<close>

definition try_home ::
  "(string \<Rightarrow> pyfloat option) \<Rightarrow> json \<Rightarrow> pyexn + (pyfloat \<times> pyfloat) option" where
  "try_home float_of doc =
     (case dict_get doc ''mission'' (JObj []) of
        Inl e \<Rightarrow> Inl e
      | Inr mission \<Rightarrow>
          (case dict_get mission ''plannedHomePosition'' JNull of
             Inl e \<Rightarrow> Inl e
           | Inr (JArr php) \<Rightarrow>
               if 2 \<le> length php
               then (case py_float float_of (php ! 0) of
                       Inl e \<Rightarrow> Inl e
                     | Inr la \<Rightarrow>
                         (case py_float float_of (php ! 1) of
                            Inl e \<Rightarrow> Inl e
                          | Inr lo \<Rightarrow> Inr (Some (la, lo))))
               else Inr None
           | Inr _ \<Rightarrow> Inr None))"

text \<open>
  \<open>_coords_from_plan\<close> on the parsed document: each \<open>try\<close> returns its pair, or passes
  on (\<open>except Exception: pass\<close>, or no \<open>return\<close> reached); the last line returns
  \<open>(None, None)\<close>.
\<close>

definition coords_from_plan ::
  "(string \<Rightarrow> pyfloat option) \<Rightarrow> json \<Rightarrow> pyexn + (pyfloat \<times> pyfloat) option" where
  "coords_from_plan float_of doc =
     (case try_items float_of doc of
        Inr (Some p) \<Rightarrow> Inr (Some p)
      | _ \<Rightarrow>
          (case try_home float_of doc of
             Inr (Some p) \<Rightarrow> Inr (Some p)
           | _ \<Rightarrow> Inr None))"

subsection \<open>Import and the swap heuristic\<close>

text \<open>The selected file by its suffix, with its parsed content.\<close>

datatype planning_file = KmlFile element | PlanFile json | OtherFile

text \<open>The log lines \<open>_import_coords\<close> appends.\<close>

datatype event = SwapNotice | ImportedNotice pyfloat pyfloat

text \<open>How \<open>_import_coords\<close> ends: the warning, the error box, or the stored pair.\<close>

datatype import_outcome = NotFound | ImportFailed pyexn | Imported pyfloat pyfloat

text \<open>
  \<open>_import_coords\<close> after the file has been chosen; \<open>coords_from_kml\<close> is the
  extractor of the same source file. The result is the outcome and the lines logged.
\<close>

definition import_coords ::
  "((string \<Rightarrow> pyfloat option) \<Rightarrow> element \<Rightarrow> pyexn + (pyfloat \<times> pyfloat) option) \<Rightarrow>
   (string \<Rightarrow> pyfloat option) \<Rightarrow> planning_file \<Rightarrow> import_outcome \<times> event list" where
  "import_coords coords_from_kml float_of file =
     (case (case file of
              KmlFile root_el \<Rightarrow> coords_from_kml float_of root_el
            | PlanFile doc \<Rightarrow> coords_from_plan float_of doc
            | OtherFile \<Rightarrow> Inr None) of
        Inl e \<Rightarrow> (ImportFailed e, [])
      | Inr None \<Rightarrow> (NotFound, [])
      | Inr (Some (lat, lon)) \<Rightarrow>
          if py_lt lat lon
          then (Imported lon lat, [SwapNotice, ImportedNotice lon lat])
          else (Imported lat lon, [ImportedNotice lat lon]))"

definition import_coords_sim ::
  "(string \<Rightarrow> pyfloat option) \<Rightarrow> planning_file \<Rightarrow> import_outcome \<times> event list" where
  "import_coords_sim = import_coords coords_from_kml_sim"

definition import_coords_v3 ::
  "(string \<Rightarrow> pyfloat option) \<Rightarrow> planning_file \<Rightarrow> import_outcome \<times> event list" where
  "import_coords_v3 = import_coords coords_from_kml_v3"

section \<open>Concrete inputs\<close>

text \<open>Columns of twelve samples: latitude \<open>k\<close> and longitude \<open>100 + k\<close> at index \<open>k\<close>.\<close>

definition lat12 :: "cell list" where
  "lat12 = [Num (Fin 0), Num (Fin 1), Num (Fin 2), Num (Fin 3), Num (Fin 4), Num (Fin 5),
            Num (Fin 6), Num (Fin 7), Num (Fin 8), Num (Fin 9), Num (Fin 10), Num (Fin 11)]"

text \<open>Longitude with a NaN at index 5.\<close>

definition lon12_bad5 :: "cell list" where
  "lon12_bad5 = [Num (Fin 100), Num (Fin 101), Num (Fin 102), Num (Fin 103), Num (Fin 104), Num NaN,
                 Num (Fin 106), Num (Fin 107), Num (Fin 108), Num (Fin 109), Num (Fin 110),
                 Num (Fin 111)]"

text \<open>Longitude with a NaN at index 5 and an infinity at index 10.\<close>

definition lon12_bad5_bad10 :: "cell list" where
  "lon12_bad5_bad10 = [Num (Fin 100), Num (Fin 101), Num (Fin 102), Num (Fin 103), Num (Fin 104),
                       Num NaN, Num (Fin 106), Num (Fin 107), Num (Fin 108), Num (Fin 109),
                       Num PInf, Num (Fin 111)]"

definition alt12 :: "cell list" where
  "alt12 = [Num (Fin 50), Num (Fin 50), Num (Fin 50), Num (Fin 50), Num (Fin 50), Num (Fin 50),
            Num (Fin 50), Num (Fin 50), Num (Fin 50), Num (Fin 50), Num (Fin 50), Num (Fin 50)]"

definition global_one_bad :: topic where
  "global_one_bad =
     \<lparr> name = ''vehicle_global_position'',
       data = [(''lat'', lat12), (''lon'', lon12_bad5), (''alt'', alt12)] \<rparr>"

definition log_one_bad :: "topic list" where
  "log_one_bad = [global_one_bad]"

definition log_two_bad :: "topic list" where
  "log_two_bad =
     [\<lparr> name = ''vehicle_global_position'',
        data = [(''lat'', lat12), (''lon'', lon12_bad5_bad10), (''alt'', alt12)] \<rparr>]"

text \<open>Seven finite samples on the global-position topic, after an attitude topic.\<close>

definition lat7 :: "cell list" where
  "lat7 = [Num (Fin 10), Num (Fin 11), Num (Fin 12), Num (Fin 13), Num (Fin 14), Num (Fin 15),
           Num (Fin 16)]"

definition lon7 :: "cell list" where
  "lon7 = [Num (Fin 20), Num (Fin 21), Num (Fin 22), Num (Fin 23), Num (Fin 24), Num (Fin 25),
           Num (Fin 26)]"

definition log_all_finite :: "topic list" where
  "log_all_finite =
     [\<lparr> name = ''vehicle_attitude'', data = [(''roll'', [Num (Fin 0)])] \<rparr>,
      \<lparr> name = ''vehicle_global_position'', data = [(''lat'', lat7), (''lon'', lon7)] \<rparr>]"




text \<open>A global-position topic none of whose samples passes the filter.\<close>

definition log_none_finite :: "topic list" where
  "log_none_finite =
     [\<lparr> name = ''vehicle_global_position'',
        data = [(''lat'', [Num (Fin 47), Unparseable]), (''lon'', [Num NaN, Num (Fin 8)])] \<rparr>]"



text \<open>An external converter that fails with return code 1 and writes nothing.\<close>

definition failing_tool :: "directory \<Rightarrow> pyexn + int \<times> directory" where
  "failing_tool dir = Inr (1, dir)"

text \<open>
  An external converter that succeeds: it writes its \<open>track.kml\<close>, over a file of
  that name if there is one, and returns 0.
\<close>

definition ok_tool :: "directory \<Rightarrow> pyexn + int \<times> directory" where
  "ok_tool dir = Inr (0, save (unlink dir ''track.kml'') ''track.kml'' (ToolOutput ''converted''))"

text \<open>The document the fallback tier writes for the seven-sample log at stride 5.\<close>

definition fallback_doc :: "string \<Rightarrow> file_content" where
  "fallback_doc nm =
     Kml \<lparr> ls_name = nm,
           ls_coords = [(Fin 20, Fin 10, Fin 0), (Fin 25, Fin 15, Fin 0)],
           ls_altitudemode = Absolute, ls_tessellate = 1,
           ls_color = ''ff0000ff'', ls_width = 4 \<rparr>"

text \<open>A directory holding an earlier output, and one holding two.\<close>

definition dir_one_output :: directory where
  "dir_one_output = [(''flight.kml'', ToolOutput ''first'')]"

definition names_two_outputs :: "string list" where
  "names_two_outputs = [''flight.kml'', ''flight-1.kml'']"

text \<open>A markup document with a point element, and two with a line string only.\<close>

definition point_coordinates :: element where
  "point_coordinates =
     Element ''{http://www.opengis.net/kml/2.2}coordinates'' (Some '' 8.545594,47.397742,488 '') []"

definition point_element :: element where
  "point_element = Element ''{http://www.opengis.net/kml/2.2}Point'' None [point_coordinates]"

definition point_doc :: element where
  "point_doc =
     Element ''{http://www.opengis.net/kml/2.2}kml'' None
       [Element ''{http://www.opengis.net/kml/2.2}Document'' None
          [Element ''{http://www.opengis.net/kml/2.2}name'' (Some ''home'') [],
           Element ''{http://www.opengis.net/kml/2.2}Placemark'' None [point_element]]]"

definition line_doc :: element where
  "line_doc =
     Element ''{http://www.opengis.net/kml/2.2}kml'' None
       [Element ''{http://www.opengis.net/kml/2.2}Document'' None
          [Element ''{http://www.opengis.net/kml/2.2}Placemark'' None
             [Element ''{http://www.opengis.net/kml/2.2}LineString'' None
                [Element ''{http://www.opengis.net/kml/2.2}coordinates''
                   (Some ''8.5,47.3,0 8.6,47.4,0'') []]]]]"

definition line_doc_2d :: element where
  "line_doc_2d =
     Element ''{http://www.opengis.net/kml/2.2}kml'' None
       [Element ''{http://www.opengis.net/kml/2.2}Document'' None
          [Element ''{http://www.opengis.net/kml/2.2}Placemark'' None
             [Element ''{http://www.opengis.net/kml/2.2}LineString'' None
                [Element ''{http://www.opengis.net/kml/2.2}coordinates''
                   (Some ''8.5,47.3 8.6,47.4'') []]]]]"

text \<open>
  Route documents whose first item with both fields does not convert: a string that
  is no number, and \<open>null\<close>; an item without the fields comes before it in the
  first document, and a valid item follows in both.
\<close>

definition item_plain :: json where
  "item_plain = JObj [(''command'', JInt 530), (''frame'', JInt 2)]"

definition item_text :: json where
  "item_text = JObj [(''command'', JInt 22), (''param5'', JStr ''north''), (''param6'', JFloat (Fin 8.5))]"

definition item_null :: json where
  "item_null = JObj [(''param5'', JNull), (''param6'', JFloat (Fin 8.5))]"

definition item_valid :: json where
  "item_valid = JObj [(''command'', JInt 16), (''param5'', JFloat (Fin 47.3)), (''param6'', JFloat (Fin 8.5))]"

definition mission_with_home :: json where
  "mission_with_home =
     JObj [(''items'', JArr [item_plain, item_text, item_valid]),
           (''plannedHomePosition'', JArr [JFloat (Fin 47.39), JFloat (Fin 8.54), JInt 488])]"

definition plan_with_home :: json where
  "plan_with_home = JObj [(''fileType'', JStr ''Plan''), (''mission'', mission_with_home)]"

definition mission_no_home :: json where
  "mission_no_home = JObj [(''items'', JArr [item_null, item_valid])]"

definition plan_no_home :: json where
  "plan_no_home = JObj [(''mission'', mission_no_home)]"

text \<open>
  Route documents for the swap heuristic: a home position west of Greenwich, and a
  first waypoint south of the equator.
\<close>

definition plan_west :: json where
  "plan_west =
     JObj [(''mission'',
            JObj [(''items'', JArr []),
                  (''plannedHomePosition'', JArr [JFloat (Fin 10), JFloat (Fin (- 80))])])]"

definition plan_south :: json where
  "plan_south =
     JObj [(''mission'',
            JObj [(''items'', JArr [JObj [(''param5'', JFloat (Fin (- 10))),
                                          (''param6'', JFloat (Fin 5))]])])]"

section \<open>The sampling loop\<close>

text \<open>The four ways one iteration goes, and the end of the loop.\<close>

lemma loop_end: "length lat \<le> i \<Longrightarrow> sample_loop lat lon alt scale ds i l cs = Inr cs"
  by (subst sample_loop.simps) simp

lemma loop_skip:
  "i < length lat \<Longrightarrow> int i - l < ds \<Longrightarrow>
   sample_loop lat lon alt scale ds i l cs = sample_loop lat lon alt scale ds (Suc i) l cs"
  by (subst sample_loop.simps) simp

lemma loop_drop:
  "i < length lat \<Longrightarrow> \<not> int i - l < ds \<Longrightarrow> visit lat lon alt scale i = Inr None \<Longrightarrow>
   sample_loop lat lon alt scale ds i l cs = sample_loop lat lon alt scale ds (Suc i) l cs"
  by (subst sample_loop.simps) simp

lemma loop_keep:
  "i < length lat \<Longrightarrow> \<not> int i - l < ds \<Longrightarrow> visit lat lon alt scale i = Inr (Some c) \<Longrightarrow>
   sample_loop lat lon alt scale ds i l cs =
   sample_loop lat lon alt scale ds (Suc i) (int i) (cs @ [c])"
  by (subst sample_loop.simps) simp

lemma loop_raise:
  "i < length lat \<Longrightarrow> \<not> int i - l < ds \<Longrightarrow> visit lat lon alt scale i = Inl e \<Longrightarrow>
   sample_loop lat lon alt scale ds i l cs = Inl e"
  by (subst sample_loop.simps) simp

lemma loop_bound:
  "1 \<le> ds \<Longrightarrow> sample_loop lat lon alt scale ds i l cs = Inr r \<Longrightarrow>
   int (length r) * ds \<le>
     int (length cs) * ds + max 0 (int (length lat) - max (int i) (l + ds) + ds - 1)"
proof (induction lat lon alt scale ds i l cs rule: sample_loop.induct)
  case (1 lat lon alt scale ds i l cs)
  show ?case
  proof (cases "length lat \<le> i")
    case True
    with "1.prems" show ?thesis by (simp add: loop_end)
  next
    case inr: False
    show ?thesis
    proof (cases "int i - l < ds")
      case True
      with inr "1.prems" have run: "sample_loop lat lon alt scale ds (Suc i) l cs = Inr r"
        by (simp add: loop_skip)
      from True have "max (int (Suc i)) (l + ds) = max (int i) (l + ds)" by simp
      with "1.IH"(1) [OF inr True "1.prems"(1) run] show ?thesis by simp
    next
      case vis: False
      then have here: "max (int i) (l + ds) = int i" by simp
      show ?thesis
      proof (cases "visit lat lon alt scale i")
        case (Inl e)
        with inr vis "1.prems" show ?thesis by (simp add: loop_raise)
      next
        case (Inr v)
        show ?thesis
        proof (cases v)
          case None
          with Inr inr vis "1.prems" have run: "sample_loop lat lon alt scale ds (Suc i) l cs = Inr r"
            by (simp add: loop_drop)
          from vis have "max (int (Suc i)) (l + ds) = int i + 1" by simp
          with "1.IH"(2) [OF inr vis Inr None "1.prems"(1) run]
          have "int (length r) * ds \<le> int (length cs) * ds + max 0 (int (length lat) - (int i + 1) + ds - 1)"
            by simp
          moreover have "max 0 (int (length lat) - (int i + 1) + ds - 1)
                         \<le> max 0 (int (length lat) - int i + ds - 1)" by simp
          ultimately show ?thesis using here by simp
        next
          case (Some c)
          with Inr inr vis "1.prems"
          have run: "sample_loop lat lon alt scale ds (Suc i) (int i) (cs @ [c]) = Inr r"
            by (simp add: loop_keep)
          from "1.prems"(1) have "max (int (Suc i)) (int i + ds) = int i + ds" by simp
          with "1.IH"(3) [OF inr vis Inr Some "1.prems"(1) run]
          have "int (length r) * ds \<le> int (length (cs @ [c])) * ds + max 0 (int (length lat) - (int i + ds) + ds - 1)"
            by simp
          moreover have "int (length (cs @ [c])) * ds = int (length cs) * ds + ds"
            by (simp add: algebra_simps)
          moreover from inr have "max 0 (int (length lat) - (int i + ds) + ds - 1) = int (length lat) - int i - 1"
            by simp
          moreover from inr "1.prems"(1) have "max 0 (int (length lat) - int i + ds - 1) = int (length lat) - int i + ds - 1"
            by simp
          ultimately show ?thesis using here by simp
        qed
      qed
    qed
  qed
qed



lemma visit_in_range:
  "i < length lat \<Longrightarrow> i < length lon \<Longrightarrow> (\<forall>a. alt = Some a \<longrightarrow> i < length a) \<Longrightarrow>
   visit lat lon alt scale i =
     (case (f (lat ! i) scale, f (lon ! i) scale) of
        (Some la, Some lo) \<Rightarrow>
          Inr (Some (lo, la,
                 (case alt of None \<Rightarrow> Fin 0
                  | Some a \<Rightarrow> (case f (a ! i) 1 of None \<Rightarrow> Fin 0 | Some v \<Rightarrow> v))))
      | _ \<Rightarrow> Inr None)"
  by (auto simp: visit_def index_def split: option.splits)


lemma loop_all_dropped:
  "(\<forall>j < length lat. visit lat lon alt scale j = Inr None) \<Longrightarrow>
   sample_loop lat lon alt scale ds i l cs = Inr cs"
proof (induction lat lon alt scale ds i l cs rule: sample_loop.induct)
  case (1 lat lon alt scale ds i l cs)
  show ?case
  proof (cases "length lat \<le> i")
    case True
    then show ?thesis by (simp add: loop_end)
  next
    case inr: False
    with "1.prems" have none: "visit lat lon alt scale i = Inr None" by simp
    show ?thesis
    proof (cases "int i - l < ds")
      case True
      with inr "1.prems" "1.IH"(1) show ?thesis by (simp add: loop_skip)
    next
      case False
      with inr none "1.prems" "1.IH"(2) show ?thesis by (simp add: loop_drop)
    qed
  qed
qed


lemma loop_extends:
  "(\<forall>j < length lat. \<exists>v. visit lat lon alt scale j = Inr v) \<Longrightarrow>
   \<exists>r. sample_loop lat lon alt scale ds i l cs = Inr (cs @ r)"
proof (induction lat lon alt scale ds i l cs rule: sample_loop.induct)
  case (1 lat lon alt scale ds i l cs)
  show ?case
  proof (cases "length lat \<le> i")
    case True
    then show ?thesis by (simp add: loop_end)
  next
    case inr: False
    then have "i < length lat" by simp
    with "1.prems" obtain v where v: "visit lat lon alt scale i = Inr v" by blast
    show ?thesis
    proof (cases "int i - l < ds")
      case True
      with inr "1.IH"(1) [OF inr True "1.prems"] show ?thesis by (simp add: loop_skip)
    next
      case vis: False
      show ?thesis
      proof (cases v)
        case None
        with v inr vis "1.IH"(2) [OF inr vis v None "1.prems"] show ?thesis
          by (simp add: loop_drop)
      next
        case (Some c)
        from "1.IH"(3) [OF inr vis v Some "1.prems"] obtain r where
          "sample_loop lat lon alt scale ds (Suc i) (int i) (cs @ [c]) = Inr ((cs @ [c]) @ r)"
          by blast
        with v Some inr vis have "sample_loop lat lon alt scale ds i l cs = Inr (cs @ (c # r))"
          by (simp add: loop_keep)
        then show ?thesis by blast
      qed
    qed
  qed
qed

lemma loop_skip_run:
  "i \<le> j \<Longrightarrow> j \<le> length lat \<Longrightarrow> int j - l \<le> ds \<Longrightarrow>
   sample_loop lat lon alt scale ds i l cs = sample_loop lat lon alt scale ds j l cs"
proof (induction "j - i" arbitrary: i)
  case 0
  then show ?case by simp
next
  case (Suc k)
  then have "i < length lat" "int i - l < ds" "Suc i \<le> j" "k = j - Suc i" by simp_all
  with Suc.hyps(1) [of "Suc i"] Suc.prems show ?case by (simp add: loop_skip)
qed

lemma track_length_ceiling:
  assumes "1 \<le> ds" and "int k * ds \<le> int n + ds - 1"
  shows "int k \<le> \<lceil>real n / real_of_int ds\<rceil>"
proof -
  from assms have "(int k - 1) * ds < int n" by (simp add: algebra_simps)
  then have "real_of_int ((int k - 1) * ds) < real_of_int (int n)" by (simp only: of_int_less_iff)
  then have "(real k - 1) * real_of_int ds < real n" by simp
  with assms(1) have "real k - 1 < real n / real_of_int ds"
    by (simp add: pos_less_divide_eq)
  then show ?thesis by (simp add: le_ceiling_iff)
qed


lemma all_finite_succeeds:
  assumes "1 \<le> ds" and "0 < length lat" and "length lon = length lat"
    and "\<forall>a. alt = Some a \<longrightarrow> length a = length lat"
    and "\<forall>i < length lat. f (lat ! i) scale \<noteq> None \<and> f (lon ! i) scale \<noteq> None"
  shows "\<exists>c r. sample_loop lat lon alt scale ds 0 (- ds) [] = Inr (c # r)"
proof -
  have vis: "\<exists>c. visit lat lon alt scale j = Inr (Some c)" if "j < length lat" for j
    using that assms(3,4,5) by (auto simp: visit_in_range split: option.splits)
  then have "\<forall>j < length lat. \<exists>v. visit lat lon alt scale j = Inr v" by blast
  from loop_extends [OF this] have ext:
    "\<exists>r. sample_loop lat lon alt scale ds i l cs = Inr (cs @ r)" for i l cs .
  from vis [OF assms(2)] obtain c where "visit lat lon alt scale 0 = Inr (Some c)" by blast
  with assms(1,2) have step: "sample_loop lat lon alt scale ds 0 (- ds) [] =
      sample_loop lat lon alt scale ds (Suc 0) (int 0) ([] @ [c])"
    by (intro loop_keep) simp_all
  from ext [of "Suc 0" "int 0" "[] @ [c]"] obtain r where
    "sample_loop lat lon alt scale ds (Suc 0) (int 0) ([] @ [c]) = Inr (([] @ [c]) @ r)" by blast
  with step have "sample_loop lat lon alt scale ds 0 (- ds) [] = Inr (c # r)" by simp
  then show ?thesis by blast
qed







section \<open>Topic selection\<close>

lemma select_first_global:
  "first_named ''vehicle_global_position'' dl = Some d \<Longrightarrow>
   select_topic dl =
     (case (get (data d) ''lat'', get (data d) ''lon'') of
        (Some lat, Some lon) \<Rightarrow> Inr (lat, lon, get (data d) ''alt'', 1)
      | _ \<Rightarrow> Inl (RuntimeError ''No GPS/global position topics found in ULog.''))"
  by (simp add: select_topic_def)








section \<open>Properties of the fallback extraction\<close>

text \<open>
  C2, as the claim states it, fails. In a log of twelve samples whose longitude is
  non-finite at indices 5 and 10 the claim expects the track to hold the sample of index
  0 only (indices 0, 5, 10 visited); the loop keeps the samples of indices 0, 6 and 11.
  With index 10 finite the claim expects the samples of indices 0 and 10; the loop
  keeps 0, 6 and 11 again.
\<close>

theorem fixed_stride_grid_counterexample:
  "fallback_track log_two_bad 5
     = Inr [(Fin 100, Fin 0, Fin 50), (Fin 106, Fin 6, Fin 50), (Fin 111, Fin 11, Fin 50)]
   \<and> fallback_track log_two_bad 5 \<noteq> Inr [(Fin 100, Fin 0, Fin 50)]
   \<and> fallback_track log_one_bad 5 \<noteq> Inr [(Fin 100, Fin 0, Fin 50), (Fin 110, Fin 10, Fin 50)]"
  by (simp add: fallback_track_def log_two_bad_def log_one_bad_def global_one_bad_def
      select_topic_def get_def lat12_def lon12_bad5_def lon12_bad5_bad10_def alt12_def
      sample_loop.simps visit_def index_def f_def)

text \<open>
  C2, amended. \<open>last\<close> is set only when a sample is appended, so a filtered sample does
  not restart the stride: in a global-position log of twelve samples with a non-finite
  longitude at index 5 and samples passing the filter at indices 0, 6 and 11, stride 5
  yields exactly the samples of indices 0, 6 and 11, whatever the other indices
  (index 10 among them) hold.
\<close>

theorem stride_resumes_after_filtered_sample:
  assumes "first_named ''vehicle_global_position'' data_list = Some d"
    and "get (data d) ''lat'' = Some lat" and "get (data d) ''lon'' = Some lon"
    and "length lat = 12" and "length lon = 12"
    and "\<forall>a. get (data d) ''alt'' = Some a \<longrightarrow> length a = 12"
    and "\<exists>v. lon ! 5 = Num v \<and> \<not> isfinite v"
    and "visit lat lon (get (data d) ''alt'') 1 0 = Inr (Some c0)"
    and "visit lat lon (get (data d) ''alt'') 1 6 = Inr (Some c6)"
    and "visit lat lon (get (data d) ''alt'') 1 11 = Inr (Some c11)"
  shows "fallback_track data_list 5 = Inr [c0, c6, c11]"
proof -
  let ?alt = "get (data d) ''alt''"
  let ?loop = "sample_loop lat lon ?alt 1 5"
  from assms(1,2,3) have sel: "select_topic data_list = Inr (lat, lon, ?alt, 1)"
    by (simp add: select_first_global)
  from assms(7) have "f (lon ! 5) 1 = None"
    by (auto simp: f_def split: pyfloat.splits)
  with assms(4,5,6) have v5: "visit lat lon ?alt 1 5 = Inr None"
    by (simp add: visit_in_range split: option.splits)
  have "?loop 0 (- 5) [] = ?loop (Suc 0) (int 0) ([] @ [c0])"
    using assms(4,8) by (intro loop_keep) simp_all
  also have "\<dots> = ?loop 5 (int 0) ([] @ [c0])"
    using assms(4) by (intro loop_skip_run) simp_all
  also have "\<dots> = ?loop (Suc 5) (int 0) ([] @ [c0])"
    using assms(4) v5 by (intro loop_drop) simp_all
  also have "\<dots> = ?loop 6 (int 0) ([] @ [c0])"
    by simp
  also have "\<dots> = ?loop (Suc 6) (int 6) (([] @ [c0]) @ [c6])"
    using assms(4,9) by (intro loop_keep) simp_all
  also have "\<dots> = ?loop 11 (int 6) (([] @ [c0]) @ [c6])"
    using assms(4) by (intro loop_skip_run) simp_all
  also have "\<dots> = ?loop (Suc 11) (int 11) ((([] @ [c0]) @ [c6]) @ [c11])"
    using assms(4,10) by (intro loop_keep) simp_all
  also have "\<dots> = Inr [c0, c6, c11]"
    using assms(4) by (simp add: loop_end)
  finally show ?thesis using sel by (simp add: fallback_track_def)
qed

theorem stride_resumes_after_filtered_sample_witness:
  "fallback_track log_one_bad 5
     = Inr [(Fin 100, Fin 0, Fin 50), (Fin 106, Fin 6, Fin 50), (Fin 111, Fin 11, Fin 50)]"
  by (rule stride_resumes_after_filtered_sample
        [where d = global_one_bad and lat = lat12 and lon = lon12_bad5])
     (simp_all add: log_one_bad_def global_one_bad_def get_def lat12_def lon12_bad5_def alt12_def
        visit_def index_def f_def)

text \<open>
  C3. For a stride \<open>S \<ge> 1\<close> and a log whose selected topic has \<open>N\<close> samples: when all
  \<open>N \<ge> 1\<close> samples are finite the fallback tier writes a file; and whenever it writes
  one, the track has at most \<open>\<lceil>N / S\<rceil>\<close> samples and the coordinates of the written
  document are the track itself, in count, order and value.
\<close>

theorem track_bound_and_written_coords:
  assumes "1 \<le> S"
    and "select_topic data_list = Inr (lat, lon, alt, scale)"
  shows "(0 < length lat \<and> length lon = length lat
            \<and> (\<forall>a. alt = Some a \<longrightarrow> length a = length lat)
            \<and> (\<forall>i < length lat. f (lat ! i) scale \<noteq> None \<and> f (lon ! i) scale \<noteq> None)
          \<longrightarrow> (\<exists>dir'. fallback_ulog_to_kml data_list ulg_path out_path S dir = Inr dir'))
       \<and> (\<forall>dir'. fallback_ulog_to_kml data_list ulg_path out_path S dir = Inr dir' \<longrightarrow>
            (\<exists>track doc. fallback_track data_list S = Inr track
               \<and> int (length track) \<le> \<lceil>real (length lat) / real_of_int S\<rceil>
               \<and> map_of dir' out_path = Some (Kml doc) \<and> ls_coords doc = track))"
proof (intro conjI impI allI)
  assume "0 < length lat \<and> length lon = length lat
            \<and> (\<forall>a. alt = Some a \<longrightarrow> length a = length lat)
            \<and> (\<forall>i < length lat. f (lat ! i) scale \<noteq> None \<and> f (lon ! i) scale \<noteq> None)"
  with all_finite_succeeds [OF assms(1), of lat lon alt scale]
  obtain c r where "sample_loop lat lon alt scale S 0 (- S) [] = Inr (c # r)" by blast
  with assms(2) show "\<exists>dir'. fallback_ulog_to_kml data_list ulg_path out_path S dir = Inr dir'"
    by (simp add: fallback_ulog_to_kml_def fallback_track_def)
next
  fix dir'
  assume ok: "fallback_ulog_to_kml data_list ulg_path out_path S dir = Inr dir'"
  then obtain track where track: "fallback_track data_list S = Inr track"
    by (auto simp: fallback_ulog_to_kml_def split: sum.splits)
  with ok have written: "\<exists>doc. map_of dir' out_path = Some (Kml doc) \<and> ls_coords doc = track"
    by (auto simp: fallback_ulog_to_kml_def save_def)
  from track assms(2) have "sample_loop lat lon alt scale S 0 (- S) [] = Inr track"
    by (auto simp: fallback_track_def split: sum.splits if_splits)
  from loop_bound [OF assms(1) this] assms(1)
  have "int (length track) * S \<le> int (length lat) + S - 1" by simp
  with assms(1) have "int (length track) \<le> \<lceil>real (length lat) / real_of_int S\<rceil>"
    by (rule track_length_ceiling)
  with track written show "\<exists>track doc. fallback_track data_list S = Inr track
               \<and> int (length track) \<le> \<lceil>real (length lat) / real_of_int S\<rceil>
               \<and> map_of dir' out_path = Some (Kml doc) \<and> ls_coords doc = track" by blast
qed

theorem track_bound_and_written_coords_witness:
  "fallback_ulog_to_kml log_all_finite ''/logs/flight.ulg'' ''flight.kml'' 3 []
     = Inr [(''flight.kml'',
             Kml \<lparr> ls_name = ''flight.ulg'',
                   ls_coords = [(Fin 20, Fin 10, Fin 0), (Fin 23, Fin 13, Fin 0),
                                (Fin 26, Fin 16, Fin 0)],
                   ls_altitudemode = Absolute, ls_tessellate = 1,
                   ls_color = ''ff0000ff'', ls_width = 4 \<rparr>)]
   \<and> (\<exists>track doc. fallback_track log_all_finite 3 = Inr track
         \<and> int (length track) \<le> \<lceil>real (length lat7) / real_of_int 3\<rceil>
         \<and> map_of [(''flight.kml'',
                     Kml \<lparr> ls_name = ''flight.ulg'',
                           ls_coords = [(Fin 20, Fin 10, Fin 0), (Fin 23, Fin 13, Fin 0),
                                        (Fin 26, Fin 16, Fin 0)],
                           ls_altitudemode = Absolute, ls_tessellate = 1,
                           ls_color = ''ff0000ff'', ls_width = 4 \<rparr>)] ''flight.kml''
             = Some (Kml doc)
         \<and> ls_coords doc = track)"
proof -
  have sel: "select_topic log_all_finite = Inr (lat7, lon7, None, 1)"
    by (simp add: select_topic_def log_all_finite_def get_def)
  have run: "fallback_ulog_to_kml log_all_finite ''/logs/flight.ulg'' ''flight.kml'' 3 []
     = Inr [(''flight.kml'',
             Kml \<lparr> ls_name = ''flight.ulg'',
                   ls_coords = [(Fin 20, Fin 10, Fin 0), (Fin 23, Fin 13, Fin 0),
                                (Fin 26, Fin 16, Fin 0)],
                   ls_altitudemode = Absolute, ls_tessellate = 1,
                   ls_color = ''ff0000ff'', ls_width = 4 \<rparr>)]"
    by (simp add: fallback_ulog_to_kml_def fallback_track_def sel lat7_def lon7_def
        sample_loop.simps visit_def index_def f_def save_def basename_def)
  from track_bound_and_written_coords
         [of 3 log_all_finite lat7 lon7 None 1 "''/logs/flight.ulg''" "''flight.kml''" "[]"]
       sel run
  show ?thesis by simp
qed



text \<open>
  C5. When the selected topic has no sample with finite latitude and longitude, the
  fallback tier raises the empty-track error before any document is built; the
  conversion that reached the fallback tier ends in \<open>Failure\<close> and leaves the directory
  as the external converter left it: no track file is written.
\<close>

theorem empty_track_is_failure:
  assumes "select_topic data_list = Inr (lat, lon, alt, scale)"
    and "length lon = length lat" and "\<forall>a. alt = Some a \<longrightarrow> length a = length lat"
    and "\<forall>i < length lat. f (lat ! i) scale = None \<or> f (lon ! i) scale = None"
  shows "fallback_track data_list ds = Inl (RuntimeError ''No valid GPS samples extracted from ULog.'')
       \<and> fallback_ulog_to_kml data_list ulg_path out_path ds dir
           = Inl (RuntimeError ''No valid GPS samples extracted from ULog.'')
       \<and> (\<forall>returncode dir1.
             tool dir = Inr (returncode, dir1) \<and> \<not> (returncode = 0 \<and> exists_in dir1 ''track.kml'')
             \<longrightarrow> convert tool data_list ulg_path ulg_stem dir
                   = (Failure (RuntimeError ''No valid GPS samples extracted from ULog.''), dir1))"
proof -
  have "visit lat lon alt scale j = Inr None" if "j < length lat" for j
    using that assms(2,3,4) by (auto simp: visit_in_range split: option.splits)
  then have "sample_loop lat lon alt scale i 0 l [] = Inr []" for i l
    by (intro loop_all_dropped) blast
  with assms(1) have track: "fallback_track data_list i = Inl (RuntimeError ''No valid GPS samples extracted from ULog.'')" for i
    by (simp add: fallback_track_def)
  then have kml: "fallback_ulog_to_kml data_list ulg_path p i d
           = Inl (RuntimeError ''No valid GPS samples extracted from ULog.'')" for p i d
    by (simp add: fallback_ulog_to_kml_def)
  have "convert tool data_list ulg_path ulg_stem dir
          = (Failure (RuntimeError ''No valid GPS samples extracted from ULog.''), dir1)"
    if "tool dir = Inr (returncode, dir1)" "\<not> (returncode = 0 \<and> exists_in dir1 ''track.kml'')"
    for returncode dir1
    using that kml by (auto simp: convert_def Let_def)
  with track kml show ?thesis by blast
qed

theorem empty_track_is_failure_witness:
  "fallback_track log_none_finite 5
     = Inl (RuntimeError ''No valid GPS samples extracted from ULog.'')
   \<and> convert failing_tool log_none_finite ''/logs/flight.ulg'' ''flight'' []
       = (Failure (RuntimeError ''No valid GPS samples extracted from ULog.''), [])"
proof -
  have sel: "select_topic log_none_finite
               = Inr ([Num (Fin 47), Unparseable], [Num NaN, Num (Fin 8)], None, 1)"
    by (simp add: select_topic_def log_none_finite_def get_def)
  have none: "\<forall>i < length [Num (Fin 47), Unparseable].
                f ([Num (Fin 47), Unparseable] ! i) 1 = None \<or> f ([Num NaN, Num (Fin 8)] ! i) 1 = None"
    by (simp add: f_def less_Suc_eq)
  from empty_track_is_failure
         [OF sel _ _ none, of 5 "''/logs/flight.ulg''" "''flight.kml''" "[]" failing_tool "''flight''"]
  show ?thesis by (simp add: failing_tool_def exists_in_def)
qed



section \<open>Output naming\<close>

lemma kml_name_split:
  "X \<noteq> [] \<Longrightarrow> suffix (X @ ''.kml'') = ''.kml'' \<and> stem (X @ ''.kml'') = X"
  by (simp add: suffix_def stem_def after_last_dot_def Let_def)

lemma unique_loop_here:
  "candidate st suf i \<notin> set names \<Longrightarrow> unique_loop names st suf i = candidate st suf i"
  by (subst unique_loop.simps) (simp add: Let_def)

lemma unique_loop_next:
  "candidate st suf i \<in> set names \<Longrightarrow>
   unique_loop names st suf i = unique_loop names st suf (Suc i)"
  by (subst unique_loop.simps) (simp add: Let_def)

lemma unique_loop_free: "unique_loop names st suf i \<notin> set names"
proof (induction names st suf i rule: unique_loop.induct)
  case (1 names st suf i)
  then show ?case by (subst unique_loop.simps) (simp add: Let_def)
qed

lemma unique_loop_smallest:
  "\<exists>k \<ge> i. unique_loop names st suf i = candidate st suf k
      \<and> (\<forall>j. i \<le> j \<and> j < k \<longrightarrow> candidate st suf j \<in> set names)"
proof (induction names st suf i rule: unique_loop.induct)
  case (1 names st suf i)
  show ?case
  proof (cases "candidate st suf i \<in> set names")
    case False
    then have "unique_loop names st suf i = candidate st suf i"
      by (subst unique_loop.simps) (simp add: Let_def)
    then show ?thesis by auto
  next
    case True
    then have step: "unique_loop names st suf i = unique_loop names st suf (Suc i)"
      by (subst unique_loop.simps) (simp add: Let_def)
    from "1.IH" [OF refl] True obtain k where k: "Suc i \<le> k"
      "unique_loop names st suf (Suc i) = candidate st suf k"
      "\<forall>j. Suc i \<le> j \<and> j < k \<longrightarrow> candidate st suf j \<in> set names" by auto
    have "\<forall>j. i \<le> j \<and> j < k \<longrightarrow> candidate st suf j \<in> set names"
    proof (intro allI impI)
      fix j assume "i \<le> j \<and> j < k"
      then have "j = i \<or> (Suc i \<le> j \<and> j < k)" by auto
      with True k(3) show "candidate st suf j \<in> set names" by auto
    qed
    with k step show ?thesis by (intro exI [of _ k]) simp
  qed
qed

lemma unique_name_free: "unique_name names base \<notin> set names"
  by (simp add: unique_name_def unique_loop_free)

lemma map_of_unlink: "n \<noteq> k \<Longrightarrow> map_of (unlink dir k) n = map_of dir n"
  by (induction dir) (auto simp: unlink_def)

lemma convert_target_is_new:
  assumes "tool dir = Inr (rc, dir1)"
    and "convert tool data_list ulg_path X dir = (Success tgt, dir')"
  shows "\<not> exists_in dir1 tgt \<and> exists_in dir' tgt
       \<and> (\<forall>n. n \<noteq> tgt \<and> n \<noteq> ''track.kml'' \<longrightarrow> map_of dir' n = map_of dir1 n)"
proof -
  let ?t = "unique_name (map fst dir1) (X @ ''.kml'')"
  have "?t \<notin> set (map fst dir1)" by (rule unique_name_free)
  then have new: "\<not> exists_in dir1 ?t" by (simp add: exists_in_def)
  show ?thesis
  proof (cases "rc = 0 \<and> exists_in dir1 ''track.kml''")
    case True
    with assms obtain produced where "map_of dir1 ''track.kml'' = Some produced"
      and "tgt = ?t" and "dir' = save (unlink dir1 ''track.kml'') ?t produced"
      by (auto simp: convert_def Let_def split: option.splits)
    with new show ?thesis by (simp add: exists_in_def save_def map_of_unlink)
  next
    case False
    with assms have "tgt = ?t"
      and "fallback_ulog_to_kml data_list ulg_path ?t 5 dir1 = Inr dir'"
      by (auto simp: convert_def Let_def split: sum.splits)
    with new show ?thesis
      by (auto simp: fallback_ulog_to_kml_def exists_in_def save_def split: sum.splits)
  qed
qed

text \<open>
  What \<open>_unique_name\<close> chooses for a log whose stem \<open>X\<close> is not empty, against the
  names it finds: a name not among them; \<open>X.kml\<close> when that is free, otherwise
  \<open>X-i.kml\<close> for the least \<open>i \<ge> 1\<close> whose name is free. A successful conversion
  creates its target as a name new to the directory the converter left, and leaves
  every other file of that directory, the converter's \<open>track.kml\<close> apart, as it was.
\<close>

lemma unique_name_first_free:
  assumes "X \<noteq> []"
  shows "unique_name names (X @ ''.kml'') \<notin> set names
    \<and> (X @ ''.kml'' \<notin> set names \<longrightarrow> unique_name names (X @ ''.kml'') = X @ ''.kml'')
    \<and> (X @ ''.kml'' \<in> set names \<longrightarrow>
         (\<exists>i \<ge> 1. unique_name names (X @ ''.kml'') = X @ ''-'' @ str_nat i @ ''.kml''
            \<and> (\<forall>j. 1 \<le> j \<and> j < i \<longrightarrow> X @ ''-'' @ str_nat j @ ''.kml'' \<in> set names)))
    \<and> unique_name (unique_name names (X @ ''.kml'') # names) (X @ ''.kml'')
         \<notin> set (unique_name names (X @ ''.kml'') # names)
    \<and> (X @ ''.kml'' \<notin> set names \<and> X @ ''-1.kml'' \<notin> set names \<and> X @ ''-2.kml'' \<notin> set names \<longrightarrow>
         unique_name names (X @ ''.kml'') = X @ ''.kml''
         \<and> unique_name ((X @ ''.kml'') # names) (X @ ''.kml'') = X @ ''-1.kml''
         \<and> unique_name ((X @ ''-1.kml'') # (X @ ''.kml'') # names) (X @ ''.kml'') = X @ ''-2.kml'')
    \<and> (\<forall>returncode dir1 tgt dir'.
          tool dir = Inr (returncode, dir1)
          \<and> convert tool data_list ulg_path X dir = (Success tgt, dir') \<longrightarrow>
          \<not> exists_in dir1 tgt \<and> exists_in dir' tgt
          \<and> (\<forall>n. n \<noteq> tgt \<and> n \<noteq> ''track.kml'' \<longrightarrow> map_of dir' n = map_of dir1 n))"
proof -
  from assms have split: "suffix (X @ ''.kml'') = ''.kml''" "stem (X @ ''.kml'') = X"
    by (simp_all add: kml_name_split)
  have free: "unique_name ns (X @ ''.kml'') \<notin> set ns" for ns
    by (simp add: unique_name_def unique_loop_free)
  have taken: "\<exists>i \<ge> 1. unique_name names (X @ ''.kml'') = X @ ''-'' @ str_nat i @ ''.kml''
            \<and> (\<forall>j. 1 \<le> j \<and> j < i \<longrightarrow> X @ ''-'' @ str_nat j @ ''.kml'' \<in> set names)"
    if "X @ ''.kml'' \<in> set names"
    using that unique_loop_smallest [of 1 names X "''.kml''"]
    by (simp add: unique_name_def split candidate_def)
  have c1: "candidate X ''.kml'' (Suc 0) = X @ ''-1.kml''"
    and c2: "candidate X ''.kml'' (Suc (Suc 0)) = X @ ''-2.kml''"
    by (simp_all add: candidate_def str_nat.simps digit_def)
  have seq: "unique_name names (X @ ''.kml'') = X @ ''.kml''
         \<and> unique_name ((X @ ''.kml'') # names) (X @ ''.kml'') = X @ ''-1.kml''
         \<and> unique_name ((X @ ''-1.kml'') # (X @ ''.kml'') # names) (X @ ''.kml'') = X @ ''-2.kml''"
    if fresh: "X @ ''.kml'' \<notin> set names \<and> X @ ''-1.kml'' \<notin> set names \<and> X @ ''-2.kml'' \<notin> set names"
  proof (intro conjI)
    from fresh show "unique_name names (X @ ''.kml'') = X @ ''.kml''"
      by (simp add: unique_name_def)
    from fresh have "candidate X ''.kml'' (Suc 0) \<notin> set ((X @ ''.kml'') # names)"
      by (simp add: c1)
    from unique_loop_here [OF this]
    have "unique_loop ((X @ ''.kml'') # names) X ''.kml'' (Suc 0) = X @ ''-1.kml''"
      by (simp only: c1)
    then show "unique_name ((X @ ''.kml'') # names) (X @ ''.kml'') = X @ ''-1.kml''"
      by (simp add: unique_name_def split)
    let ?ns = "(X @ ''-1.kml'') # (X @ ''.kml'') # names"
    have "candidate X ''.kml'' (Suc 0) \<in> set ?ns" by (simp add: c1)
    then have "unique_loop ?ns X ''.kml'' (Suc 0) = unique_loop ?ns X ''.kml'' (Suc (Suc 0))"
      by (rule unique_loop_next)
    moreover from fresh have "candidate X ''.kml'' (Suc (Suc 0)) \<notin> set ?ns"
      by (simp add: c2)
    moreover
    from unique_loop_here [OF this]
    have "unique_loop ?ns X ''.kml'' (Suc (Suc 0)) = X @ ''-2.kml''"
      by (simp only: c2)
    ultimately show "unique_name ?ns (X @ ''.kml'') = X @ ''-2.kml''"
      by (simp add: unique_name_def split)
  qed
  have conv: "\<not> exists_in dir1 tgt \<and> exists_in dir' tgt
          \<and> (\<forall>n. n \<noteq> tgt \<and> n \<noteq> ''track.kml'' \<longrightarrow> map_of dir' n = map_of dir1 n)"
    if "tool dir = Inr (returncode, dir1)
          \<and> convert tool data_list ulg_path X dir = (Success tgt, dir')"
    for returncode dir1 tgt dir'
    using that convert_target_is_new [of tool dir returncode dir1 data_list ulg_path X tgt dir']
    by blast
  have first: "X @ ''.kml'' \<notin> set names \<longrightarrow> unique_name names (X @ ''.kml'') = X @ ''.kml''"
    by (simp add: unique_name_def)
  from free [of names] free [of "unique_name names (X @ ''.kml'') # names"] first taken seq conv
  show ?thesis by blast
qed

lemma unique_name_first_free_examples:
  "unique_name names_two_outputs ''flight.kml'' = ''flight-2.kml''
   \<and> unique_name [] ''flight.kml'' = ''flight.kml''
   \<and> unique_name [''flight.kml''] ''flight.kml'' = ''flight-1.kml''
   \<and> convert failing_tool log_all_finite ''/logs/flight.ulg'' ''flight'' dir_one_output
       = (Success ''flight-1.kml'',
          [(''flight-1.kml'',
            Kml \<lparr> ls_name = ''flight.ulg'',
                  ls_coords = [(Fin 20, Fin 10, Fin 0), (Fin 25, Fin 15, Fin 0)],
                  ls_altitudemode = Absolute, ls_tessellate = 1,
                  ls_color = ''ff0000ff'', ls_width = 4 \<rparr>),
           (''flight.kml'', ToolOutput ''first'')])"
proof -
  have stem: "''flight'' \<noteq> []" by simp
  have run: "convert failing_tool log_all_finite ''/logs/flight.ulg'' ''flight'' dir_one_output
       = (Success ''flight-1.kml'',
          [(''flight-1.kml'',
            Kml \<lparr> ls_name = ''flight.ulg'',
                  ls_coords = [(Fin 20, Fin 10, Fin 0), (Fin 25, Fin 15, Fin 0)],
                  ls_altitudemode = Absolute, ls_tessellate = 1,
                  ls_color = ''ff0000ff'', ls_width = 4 \<rparr>),
           (''flight.kml'', ToolOutput ''first'')])"
    by (simp add: convert_def failing_tool_def dir_one_output_def exists_in_def
        unique_name_def suffix_def stem_def after_last_dot_def Let_def
        unique_loop.simps candidate_def str_nat.simps digit_def
        fallback_ulog_to_kml_def fallback_track_def select_topic_def log_all_finite_def get_def
        lat7_def lon7_def sample_loop.simps visit_def index_def f_def save_def basename_def)
  from unique_name_first_free [OF stem, of names_two_outputs failing_tool dir_one_output
         log_all_finite "''/logs/flight.ulg''"]
       unique_name_first_free [OF stem, of "[]" failing_tool dir_one_output
         log_all_finite "''/logs/flight.ulg''"]
       run
  show ?thesis
    by (simp add: names_two_outputs_def unique_name_def suffix_def stem_def after_last_dot_def
        Let_def unique_loop.simps candidate_def str_nat.simps digit_def)
qed

text \<open>
  C6. In the first tier of \<open>sim.py\<close> the external converter has written its
  \<open>track.kml\<close> before \<open>_unique_name\<close> looks at the directory. For a log of stem
  \<open>track\<close> the base name is then never free: into an empty directory the conversion
  yields \<open>track-1.kml\<close>, not \<open>track.kml\<close>. And a \<open>track.kml\<close> that an earlier
  conversion left (here: the fallback tier, for the same log) is overwritten by the
  converter and moved away: after the second conversion the first output is gone. The
  same happens to an earlier \<open>track.kml\<close> when a log of another stem is converted.
  The fallback tier writes straight to the free name.
\<close>

theorem track_stem_meets_converter_output:
  "convert ok_tool log_all_finite ''/logs/track.ulg'' ''track'' []
     = (Success ''track-1.kml'', [(''track-1.kml'', ToolOutput ''converted'')])
   \<and> convert failing_tool log_all_finite ''/logs/track.ulg'' ''track'' []
     = (Success ''track.kml'', [(''track.kml'', fallback_doc ''track.ulg'')])
   \<and> convert ok_tool log_all_finite ''/logs/track.ulg'' ''track''
         [(''track.kml'', fallback_doc ''track.ulg'')]
     = (Success ''track-1.kml'', [(''track-1.kml'', ToolOutput ''converted'')])
   \<and> convert ok_tool log_all_finite ''/logs/flight.ulg'' ''flight''
         [(''track.kml'', fallback_doc ''track.ulg'')]
     = (Success ''flight.kml'', [(''flight.kml'', ToolOutput ''converted'')])"
  by (simp add: convert_def ok_tool_def failing_tool_def fallback_doc_def exists_in_def
      save_def unlink_def unique_name_def suffix_def stem_def after_last_dot_def Let_def
      unique_loop.simps candidate_def str_nat.simps digit_def
      fallback_ulog_to_kml_def fallback_track_def select_topic_def log_all_finite_def get_def
      lat7_def lon7_def sample_loop.simps visit_def index_def f_def basename_def)

section \<open>Properties of the planning-document extraction\<close>

text \<open>What \<open>split\<close> and \<open>strip\<close> do to a text whose first token is known.\<close>

lemma split_ws_spaces: "\<forall>c \<in> set ws. isspace c \<Longrightarrow> split_ws [] ws = []"
  by (induction ws) auto

lemma split_ws_leading: "\<forall>c \<in> set ws. isspace c \<Longrightarrow> split_ws [] (ws @ s) = split_ws [] s"
  by (induction ws) auto

lemma split_ws_trailing: "\<forall>c \<in> set ws. isspace c \<Longrightarrow> split_ws cur (s @ ws) = split_ws cur s"
proof (induction s arbitrary: cur)
  case Nil
  then show ?case by (cases ws) (auto simp: split_ws_spaces)
next
  case (Cons c s)
  then show ?case by simp
qed

lemma split_ws_strip: "split_ws [] (strip s) = split_ws [] s"
proof -
  let ?s1 = "dropWhile isspace s"
  have "?s1 = strip s @ rev (takeWhile isspace (rev ?s1))"
    unfolding strip_def by (metis rev_append rev_rev_ident takeWhile_dropWhile_id)
  moreover have "\<forall>c \<in> set (rev (takeWhile isspace (rev ?s1))). isspace c"
    by (auto dest: set_takeWhileD)
  ultimately have "split_ws [] ?s1 = split_ws [] (strip s)"
    by (metis split_ws_trailing)
  moreover have "split_ws [] (takeWhile isspace s @ ?s1) = split_ws [] ?s1"
    by (rule split_ws_leading) (auto dest: set_takeWhileD)
  ultimately show ?thesis by simp
qed

lemma split_ws_first:
  "cur \<noteq> [] \<or> tok \<noteq> [] \<Longrightarrow> \<forall>c \<in> set tok. \<not> isspace c \<Longrightarrow> post = [] \<or> isspace (hd post) \<Longrightarrow>
   \<exists>rest. split_ws cur (tok @ post) = (cur @ tok) # rest"
proof (induction tok arbitrary: cur)
  case Nil
  then show ?case by (cases post) auto
next
  case (Cons c tok)
  from Cons.prems Cons.IH [of "cur @ [c]"] show ?case by auto
qed

lemma split_on_one: "sep \<notin> set a \<Longrightarrow> split_on sep cur a = [cur @ a]"
  by (induction a arbitrary: cur) auto

lemma split_on_head:
  "sep \<notin> set a \<Longrightarrow> split_on sep cur (a @ sep # rest) = (cur @ a) # split_on sep [] rest"
  by (induction a arbitrary: cur) auto

lemma split_on_nonempty: "split_on sep cur s \<noteq> []"
  by (induction s arbitrary: cur) auto

lemma split_on_two:
  "sep \<notin> set a \<Longrightarrow> sep \<notin> set b \<Longrightarrow> rest = [] \<or> hd rest = sep \<Longrightarrow>
   \<exists>more. split_on sep [] (a @ sep # b @ rest) = a # b # more"
proof (cases rest)
  case Nil
  assume "sep \<notin> set a" "sep \<notin> set b"
  with Nil show ?thesis by (simp add: split_on_head split_on_one)
next
  case (Cons c r)
  assume "sep \<notin> set a" "sep \<notin> set b" "rest = [] \<or> hd rest = sep"
  with Cons show ?thesis by (simp add: split_on_head)
qed

text \<open>
  C7. When the first point element of the document has a \<open>coordinates\<close> child whose
  text, after leading whitespace, begins with the tuple \<open>lon,lat,alt\<close> (ended by
  whitespace or by the end of the text), and \<open>lon\<close> and \<open>lat\<close> convert, the
  extractor of either file returns \<open>(lat, lon)\<close>: the file order inverted, before the
  swap heuristic of the caller.
\<close>

theorem point_coordinates_order_inverted:
  assumes "find_descendant kml_Point root_el = Some pt"
    and "find_child kml_coordinates pt = Some el"
    and "el_text el = Some (pre @ lo_s @ '','' @ la_s @ '','' @ al_s @ post)"
    and "\<forall>c \<in> set pre. isspace c"
    and "\<forall>c \<in> set (lo_s @ la_s @ al_s). c \<noteq> CHR '','' \<and> \<not> isspace c"
    and "post = [] \<or> isspace (hd post)"
    and "float_of lo_s = Some lo" and "float_of la_s = Some la"
  shows "coords_from_kml_sim float_of root_el = Inr (Some (la, lo))
       \<and> coords_from_kml_v3 float_of root_el = Inr (Some (la, lo))"
proof -
  let ?tok = "lo_s @ '','' @ la_s @ '','' @ al_s"
  let ?txt = "pre @ ?tok @ post"
  have comma: "\<not> isspace CHR '',''" by (simp add: isspace_def)
  with assms(5) have "\<forall>c \<in> set ?tok. \<not> isspace c" by auto
  with assms(6) obtain rest where "split_ws [] (?tok @ post) = ([] @ ?tok) # rest"
    using split_ws_first [of "[]" ?tok post] by auto
  with assms(4) have "split_ws [] ?txt = ?tok # rest"
    by (simp add: split_ws_leading)
  then have tokens: "split_ws [] (strip ?txt) = ?tok # rest"
    by (simp only: split_ws_strip)
  from assms(5) have "CHR '','' \<notin> set lo_s" "CHR '','' \<notin> set la_s" by auto
  from split_on_two [OF this, of "'','' @ al_s"] obtain more where
    parts: "split_on CHR '','' [] ?tok = lo_s # la_s # more" by auto
  from assms(2,3,7,8) tokens parts have "point_coords float_of pt = Inr (Some (la, lo))"
    by (simp add: point_coords_def)
  with assms(1) show ?thesis
    by (simp add: coords_from_kml_sim_def coords_from_kml_v3_def)
qed

theorem point_coordinates_order_inverted_witness:
  "coords_from_kml_sim dec_float point_doc = Inr (Some (Fin 47.397742, Fin 8.545594))
   \<and> coords_from_kml_v3 dec_float point_doc = Inr (Some (Fin 47.397742, Fin 8.545594))"
  by (rule point_coordinates_order_inverted
        [where pt = point_element and el = point_coordinates
         and pre = "'' ''" and lo_s = "''8.545594''" and la_s = "''47.397742''"
         and al_s = "''488''" and post = "'' ''"])
     (simp_all add: point_doc_def point_element_def point_coordinates_def
        find_descendant_def find_child_def kml_Point_def kml_coordinates_def isspace_def
        dec_float_def dec_unsigned_def digit_val_def)

text \<open>
  C8. On a document with no point element and a line string with coordinates,
  \<open>_coords_from_kml\<close> of \<open>sim.py\<close> returns \<open>(None, None)\<close> at once, where that of
  \<open>v3.py\<close> scans the elements whose tag contains \<open>coordinates\<close> and returns the pair
  of the first tuple. The scan of \<open>v3.py\<close> splits the whole text at commas only: on
  two-dimensional tuples separated by a blank it raises \<open>ValueError\<close>.
\<close>

theorem sim_extractor_has_no_coordinates_scan:
  "find_descendant kml_Point line_doc = None
   \<and> coords_from_kml_sim dec_float line_doc = Inr None
   \<and> coords_from_kml_v3 dec_float line_doc = Inr (Some (Fin 47.3, Fin 8.5))
   \<and> coords_from_kml_v3 dec_float line_doc_2d = Inl ValueError"
  by (simp add: line_doc_def line_doc_2d_def coords_from_kml_sim_def coords_from_kml_v3_def
      find_descendant_def kml_Point_def strip_def isspace_def
      dec_float_def dec_unsigned_def digit_val_def)

lemma scan_items_abandoned:
  "\<forall>x \<in> set pre. has_both_params x = Inr False \<Longrightarrow> has_both_params it = Inr True \<Longrightarrow>
   item_coords float_of it = Inl e \<Longrightarrow> scan_items float_of (pre @ it # post) = Inl e"
  by (induction pre) auto

text \<open>
  C10. When the first mission item that has both \<open>param5\<close> and \<open>param6\<close> raises in
  the conversion of its values, the first \<open>try\<close> ends with that exception whatever
  items follow, and \<open>_coords_from_plan\<close> returns what the planned home position gives:
  its pair, or \<open>(None, None)\<close> when that fails too. No exception leaves the function.
\<close>

theorem failed_waypoint_falls_through:
  assumes "dict_get doc ''mission'' (JObj []) = Inr mission"
    and "dict_get mission ''items'' (JArr []) = Inr items"
    and "py_iter items = Inr (pre @ it # post)"
    and "\<forall>x \<in> set pre. has_both_params x = Inr False"
    and "has_both_params it = Inr True"
    and "item_coords float_of it = Inl e"
  shows "try_items float_of doc = Inl e
       \<and> coords_from_plan float_of doc
           = (case try_home float_of doc of Inr (Some p) \<Rightarrow> Inr (Some p) | _ \<Rightarrow> Inr None)
       \<and> ((\<forall>p. try_home float_of doc \<noteq> Inr (Some p)) \<longrightarrow> coords_from_plan float_of doc = Inr None)
       \<and> (\<exists>r. coords_from_plan float_of doc = Inr r)"
proof -
  from assms have items: "try_items float_of doc = Inl e"
    by (simp add: try_items_def scan_items_abandoned)
  then have plan: "coords_from_plan float_of doc
           = (case try_home float_of doc of Inr (Some p) \<Rightarrow> Inr (Some p) | _ \<Rightarrow> Inr None)"
    by (simp add: coords_from_plan_def)
  then have "(\<forall>p. try_home float_of doc \<noteq> Inr (Some p)) \<longrightarrow> coords_from_plan float_of doc = Inr None"
    by (auto split: sum.splits option.splits)
  moreover from plan have "\<exists>r. coords_from_plan float_of doc = Inr r"
    by (auto split: sum.splits option.splits)
  ultimately show ?thesis using items plan by blast
qed

theorem failed_waypoint_falls_through_witness:
  "try_items dec_float plan_with_home = Inl ValueError
   \<and> coords_from_plan dec_float plan_with_home = Inr (Some (Fin 47.39, Fin 8.54))
   \<and> try_items dec_float plan_no_home = Inl TypeError
   \<and> coords_from_plan dec_float plan_no_home = Inr None"
  using failed_waypoint_falls_through
          [of plan_with_home mission_with_home "JArr [item_plain, item_text, item_valid]"
              "[item_plain]" item_text "[item_valid]" dec_float ValueError]
    failed_waypoint_falls_through
          [of plan_no_home mission_no_home "JArr [item_null, item_valid]" "[]" item_null
              "[item_valid]" dec_float TypeError]
  by (simp add: plan_with_home_def mission_with_home_def plan_no_home_def mission_no_home_def
      item_plain_def item_text_def item_null_def item_valid_def dict_get_def py_iter_def
      has_both_params_def py_in_def item_coords_def getitem_def py_float_def try_home_def
      dec_float_def dec_unsigned_def digit_val_def)

text \<open>
  C1, as the claim states it, fails: the comparison is of the signed values. A planned
  home position \<open>[10, -80]\<close> has the smaller magnitude first and is imported unswapped,
  with no swap notice; a first waypoint \<open>(-10, 5)\<close> has the larger magnitude first and
  is swapped, with a notice.
\<close>

theorem swap_by_magnitude_counterexample:
  "py_lt (py_abs (Fin 10)) (py_abs (Fin (- 80)))
   \<and> import_coords_sim dec_float (PlanFile plan_west)
       = (Imported (Fin 10) (Fin (- 80)), [ImportedNotice (Fin 10) (Fin (- 80))])
   \<and> import_coords_v3 dec_float (PlanFile plan_west)
       = (Imported (Fin 10) (Fin (- 80)), [ImportedNotice (Fin 10) (Fin (- 80))])
   \<and> \<not> py_lt (py_abs (Fin (- 10))) (py_abs (Fin 5))
   \<and> import_coords_sim dec_float (PlanFile plan_south)
       = (Imported (Fin 5) (Fin (- 10)), [SwapNotice, ImportedNotice (Fin 5) (Fin (- 10))])"
  by (simp add: import_coords_sim_def import_coords_v3_def import_coords_def coords_from_plan_def
      try_items_def try_home_def plan_west_def plan_south_def dict_get_def py_iter_def
      has_both_params_def py_in_def item_coords_def getitem_def py_float_def)

lemma home_position_pair:
  assumes "\<forall>p. try_items float_of d \<noteq> Inr (Some p)"
    and "dict_get d ''mission'' (JObj []) = Inr mission"
    and "dict_get mission ''plannedHomePosition'' JNull = Inr (JArr (JFloat lat # JFloat lon # tail))"
  shows "coords_from_plan float_of d = Inr (Some (lat, lon))"
proof -
  from assms(2,3) have "try_home float_of d = Inr (Some (lat, lon))"
    by (simp add: try_home_def py_float_def)
  with assms(1) show ?thesis
    by (auto simp: coords_from_plan_def split: sum.splits option.splits)
qed

text \<open>
  C1, amended. For every pair \<open>(lat, lon)\<close> that the extraction of a markup or route
  document returns, in either file: when \<open>lat < lon\<close> as signed numbers the import
  stores \<open>(lon, lat)\<close> and logs exactly one swap notice; otherwise it stores
  \<open>(lat, lon)\<close> unmodified and logs no swap notice. In particular so for a route
  document whose items give no pair and whose planned home position is \<open>[lat, lon, \<dots>]\<close>.
\<close>

theorem swap_compares_signed_values:
  "(((file = KmlFile r \<and> coords_from_kml_sim float_of r = Inr (Some (lat, lon)))
      \<or> (file = PlanFile d \<and> coords_from_plan float_of d = Inr (Some (lat, lon))))
     \<longrightarrow> import_coords_sim float_of file
           = (if py_lt lat lon then (Imported lon lat, [SwapNotice, ImportedNotice lon lat])
              else (Imported lat lon, [ImportedNotice lat lon]))
         \<and> length (filter (\<lambda>ev. ev = SwapNotice) (snd (import_coords_sim float_of file)))
           = (if py_lt lat lon then 1 else 0))
   \<and> (((file = KmlFile r \<and> coords_from_kml_v3 float_of r = Inr (Some (lat, lon)))
      \<or> (file = PlanFile d \<and> coords_from_plan float_of d = Inr (Some (lat, lon))))
     \<longrightarrow> import_coords_v3 float_of file
           = (if py_lt lat lon then (Imported lon lat, [SwapNotice, ImportedNotice lon lat])
              else (Imported lat lon, [ImportedNotice lat lon]))
         \<and> length (filter (\<lambda>ev. ev = SwapNotice) (snd (import_coords_v3 float_of file)))
           = (if py_lt lat lon then 1 else 0))
   \<and> ((\<forall>p. try_items float_of d \<noteq> Inr (Some p))
        \<and> dict_get d ''mission'' (JObj []) = Inr mission
        \<and> dict_get mission ''plannedHomePosition'' JNull
            = Inr (JArr (JFloat lat # JFloat lon # tail))
     \<longrightarrow> import_coords_sim float_of (PlanFile d)
           = (if py_lt lat lon then (Imported lon lat, [SwapNotice, ImportedNotice lon lat])
              else (Imported lat lon, [ImportedNotice lat lon]))
         \<and> import_coords_v3 float_of (PlanFile d)
           = (if py_lt lat lon then (Imported lon lat, [SwapNotice, ImportedNotice lon lat])
              else (Imported lat lon, [ImportedNotice lat lon])))"
proof -
  have step: "import_coords k float_of fl
           = (if py_lt lat lon then (Imported lon lat, [SwapNotice, ImportedNotice lon lat])
              else (Imported lat lon, [ImportedNotice lat lon]))"
    if "(fl = KmlFile r \<and> k float_of r = Inr (Some (lat, lon)))
      \<or> (fl = PlanFile d \<and> coords_from_plan float_of d = Inr (Some (lat, lon)))"
    for k fl
    using that by (auto simp: import_coords_def)
  have count: "length (filter (\<lambda>ev. ev = SwapNotice) (snd (import_coords k float_of fl)))
           = (if py_lt lat lon then 1 else 0)"
    if "(fl = KmlFile r \<and> k float_of r = Inr (Some (lat, lon)))
      \<or> (fl = PlanFile d \<and> coords_from_plan float_of d = Inr (Some (lat, lon)))"
    for k fl
    using that step [where k = k and fl = fl] by simp
  have home: "import_coords k float_of (PlanFile d)
           = (if py_lt lat lon then (Imported lon lat, [SwapNotice, ImportedNotice lon lat])
              else (Imported lat lon, [ImportedNotice lat lon]))"
    if "(\<forall>p. try_items float_of d \<noteq> Inr (Some p))
        \<and> dict_get d ''mission'' (JObj []) = Inr mission
        \<and> dict_get mission ''plannedHomePosition'' JNull
            = Inr (JArr (JFloat lat # JFloat lon # tail))"
    for k
  proof -
    from that have "coords_from_plan float_of d = Inr (Some (lat, lon))"
      by (blast intro: home_position_pair)
    with step [where k = k and fl = "PlanFile d"] show ?thesis by simp
  qed
  from step [where k = coords_from_kml_sim and fl = "file"]
    step [where k = coords_from_kml_v3 and fl = "file"]
    count [where k = coords_from_kml_sim and fl = "file"]
    count [where k = coords_from_kml_v3 and fl = "file"]
    home [where k = coords_from_kml_sim] home [where k = coords_from_kml_v3]
  show ?thesis
    unfolding import_coords_sim_def import_coords_v3_def by blast
qed

theorem swap_compares_signed_values_witness:
  "import_coords_sim dec_float (PlanFile plan_south)
     = (Imported (Fin 5) (Fin (- 10)), [SwapNotice, ImportedNotice (Fin 5) (Fin (- 10))])
   \<and> length (filter (\<lambda>ev. ev = SwapNotice) (snd (import_coords_sim dec_float (PlanFile plan_south)))) = 1
   \<and> import_coords_v3 dec_float (KmlFile point_doc)
     = (Imported (Fin 47.397742) (Fin 8.545594), [ImportedNotice (Fin 47.397742) (Fin 8.545594)])
   \<and> length (filter (\<lambda>ev. ev = SwapNotice) (snd (import_coords_v3 dec_float (KmlFile point_doc)))) = 0
   \<and> import_coords_v3 dec_float (PlanFile plan_west)
     = (Imported (Fin 10) (Fin (- 80)), [ImportedNotice (Fin 10) (Fin (- 80))])"
proof -
  have plan: "coords_from_plan dec_float plan_south = Inr (Some (Fin (- 10), Fin 5))"
    by (simp add: coords_from_plan_def try_items_def plan_south_def dict_get_def py_iter_def
        has_both_params_def py_in_def item_coords_def getitem_def py_float_def)
  have kml: "coords_from_kml_v3 dec_float point_doc = Inr (Some (Fin 47.397742, Fin 8.545594))"
    by (simp add: point_doc_def point_element_def point_coordinates_def coords_from_kml_v3_def
        point_coords_def find_descendant_def find_child_def kml_Point_def kml_coordinates_def
        strip_def isspace_def dec_float_def dec_unsigned_def digit_val_def)
  have west: "(\<forall>p. try_items dec_float plan_west \<noteq> Inr (Some p))
        \<and> dict_get plan_west ''mission'' (JObj [])
            = Inr (JObj [(''items'', JArr []),
                         (''plannedHomePosition'', JArr [JFloat (Fin 10), JFloat (Fin (- 80))])])
        \<and> dict_get (JObj [(''items'', JArr []),
                         (''plannedHomePosition'', JArr [JFloat (Fin 10), JFloat (Fin (- 80))])])
             ''plannedHomePosition'' JNull
            = Inr (JArr (JFloat (Fin 10) # JFloat (Fin (- 80)) # []))"
    by (simp add: try_items_def plan_west_def dict_get_def py_iter_def)
  from swap_compares_signed_values
         [of "PlanFile plan_south" point_doc dec_float "Fin (- 10)" "Fin 5" plan_south]
       swap_compares_signed_values
         [of "KmlFile point_doc" point_doc dec_float "Fin 47.397742" "Fin 8.545594" plan_south]
       swap_compares_signed_values
         [of "PlanFile plan_west" point_doc dec_float "Fin 10" "Fin (- 80)" plan_west
             "JObj [(''items'', JArr []),
                    (''plannedHomePosition'', JArr [JFloat (Fin 10), JFloat (Fin (- 80))])]" "[]"]
       plan kml west
  show ?thesis by simp
qed

end
